theory Spec2Isabelle
  imports Complex_Main
begin

section \<open>C doubles\<close>

text \<open>
  The inflation routines compute with C doubles, and some of their tests are decided by
  what a comparison does with a NaN. A double is modelled as a finite number, one of the
  two infinities, or NaN. Finite numbers are HOL reals and arithmetic on them is exact:
  there is no rounding, and a finite result never overflows to an infinity or underflows
  to zero. The infinities and NaN follow the rules of IEEE 754 arithmetic: NaN is
  contagious, every comparison with a NaN is false, \<open>inf - inf\<close>, \<open>0 * inf\<close>,
  \<open>inf / inf\<close> and \<open>0 / 0\<close> are NaN, a nonzero number divided by zero is an
  infinity, the square root of a negative number is NaN, and the logarithm is NaN below
  zero and minus infinity at zero. Zero has no sign in the model: a nonzero number
  divided by zero gets the sign of the numerator.
\<close>

datatype double = Num real | PInf | NInf | NaN

instantiation double :: "{zero, one, plus, minus, uminus, times, inverse, abs, ord}"
begin

definition zero_double :: double where "zero_double = Num 0"

definition one_double :: double where "one_double = Num 1"

fun uminus_double :: "double \<Rightarrow> double" where
  "uminus_double (Num x) = Num (- x)"
| "uminus_double PInf = NInf"
| "uminus_double NInf = PInf"
| "uminus_double NaN = NaN"

fun plus_double :: "double \<Rightarrow> double \<Rightarrow> double" where
  "plus_double (Num x) (Num y) = Num (x + y)"
| "plus_double NaN b = NaN"
| "plus_double a NaN = NaN"
| "plus_double PInf NInf = NaN"
| "plus_double NInf PInf = NaN"
| "plus_double PInf b = PInf"
| "plus_double a PInf = PInf"
| "plus_double NInf b = NInf"
| "plus_double a NInf = NInf"

fun minus_double :: "double \<Rightarrow> double \<Rightarrow> double" where
  "minus_double (Num x) (Num y) = Num (x - y)"
| "minus_double NaN b = NaN"
| "minus_double a NaN = NaN"
| "minus_double PInf PInf = NaN"
| "minus_double NInf NInf = NaN"
| "minus_double PInf b = PInf"
| "minus_double a NInf = PInf"
| "minus_double NInf b = NInf"
| "minus_double a PInf = NInf"

fun times_double :: "double \<Rightarrow> double \<Rightarrow> double" where
  "times_double (Num x) (Num y) = Num (x * y)"
| "times_double NaN b = NaN"
| "times_double a NaN = NaN"
| "times_double (Num x) PInf = (if x = 0 then NaN else if 0 < x then PInf else NInf)"
| "times_double (Num x) NInf = (if x = 0 then NaN else if 0 < x then NInf else PInf)"
| "times_double PInf (Num y) = (if y = 0 then NaN else if 0 < y then PInf else NInf)"
| "times_double NInf (Num y) = (if y = 0 then NaN else if 0 < y then NInf else PInf)"
| "times_double PInf PInf = PInf"
| "times_double PInf NInf = NInf"
| "times_double NInf PInf = NInf"
| "times_double NInf NInf = PInf"

fun divide_double :: "double \<Rightarrow> double \<Rightarrow> double" where
  "divide_double (Num x) (Num y) =
     (if y = 0 then (if x = 0 then NaN else if 0 < x then PInf else NInf) else Num (x / y))"
| "divide_double NaN b = NaN"
| "divide_double a NaN = NaN"
| "divide_double (Num x) PInf = Num 0"
| "divide_double (Num x) NInf = Num 0"
| "divide_double PInf (Num y) = (if 0 \<le> y then PInf else NInf)"
| "divide_double NInf (Num y) = (if 0 \<le> y then NInf else PInf)"
| "divide_double PInf b = NaN"
| "divide_double NInf b = NaN"

fun inverse_double :: "double \<Rightarrow> double" where
  "inverse_double (Num x) = (if x = 0 then PInf else Num (1 / x))"
| "inverse_double PInf = Num 0"
| "inverse_double NInf = Num 0"
| "inverse_double NaN = NaN"

fun abs_double :: "double \<Rightarrow> double" where
  "abs_double (Num x) = Num \<bar>x\<bar>"
| "abs_double PInf = PInf"
| "abs_double NInf = PInf"
| "abs_double NaN = NaN"

fun less_eq_double :: "double \<Rightarrow> double \<Rightarrow> bool" where
  "less_eq_double (Num x) (Num y) = (x \<le> y)"
| "less_eq_double NaN b = False"
| "less_eq_double a NaN = False"
| "less_eq_double NInf b = True"
| "less_eq_double a PInf = True"
| "less_eq_double PInf b = False"
| "less_eq_double a NInf = False"

fun less_double :: "double \<Rightarrow> double \<Rightarrow> bool" where
  "less_double (Num x) (Num y) = (x < y)"
| "less_double NaN b = False"
| "less_double a NaN = False"
| "less_double PInf b = False"
| "less_double a NInf = False"
| "less_double NInf b = True"
| "less_double a PInf = True"

instance ..

end

instance double :: semigroup_add
proof
  fix a b c :: double
  show "a + b + c = a + (b + c)"
    by (cases a; cases b; cases c; simp)
qed

instance double :: numeral ..

instance double :: power ..

text \<open>
  The library functions \<open>sqrt\<close> and \<open>log\<close>; \<open>fabs\<close> is the absolute value
  above, and \<open>pow(x, n)\<close> with a literal exponent \<open>n\<close> is \<open>x ^ n\<close>.
\<close>

fun sqrt_double :: "double \<Rightarrow> double" where
  "sqrt_double (Num x) = (if x < 0 then NaN else Num (sqrt x))"
| "sqrt_double PInf = PInf"
| "sqrt_double NInf = NaN"
| "sqrt_double NaN = NaN"


text \<open>
  Modelled from the spec: the step sizes are the \<open>min\<close> and the \<open>max\<close> of two
  numbers; the macros of these names come from a header that is not part of the source
  file, and are taken to be the usual \<open>(a < b) ? a : b\<close> and \<open>(a < b) ? b : a\<close>.
\<close>

definition min_double :: "double \<Rightarrow> double \<Rightarrow> double" where
  "min_double a b = (if a < b then a else b)"

definition max_double :: "double \<Rightarrow> double \<Rightarrow> double" where
  "max_double a b = (if a < b then b else a)"

section \<open>Data model of the primordial module\<close>

text \<open>
  The parameters that the routines read from the primordial and precision structures
  are finite numbers and are kept as HOL reals; where a routine computes with one, it
  enters the computation as the double \<open>Num\<close> of it. The constant \<open>_PI_\<close> is
  \<open>Num pi\<close>. The spectrum lookup and the spectral parameters (the last sections of
  definitions) work on tables of finite numbers and are modelled on reals, with \<open>fabs\<close>
  as \<open>abs\<close>, \<open>log\<close> as \<open>ln\<close> and \<open>x / 0 = 0\<close>.

  The arrays \<open>y\<close> and \<open>dy\<close> of the inflation routines are functions from the slot
  number to the double in it. The slot numbers are the ones that
  \<open>primordial_inflation_indices\<close> stores in the primordial structure, by counting up
  from zero: three background slots, then eight perturbation slots.
\<close>

type_synonym vec = "nat \<Rightarrow> double"

definition index_in_a :: nat where "index_in_a = 0"
definition index_in_phi :: nat where "index_in_phi = 1"
definition index_in_dphi :: nat where "index_in_dphi = 2"
definition in_bg_size :: nat where "in_bg_size = 3"
definition index_in_ksi_re :: nat where "index_in_ksi_re = 3"
definition index_in_ksi_im :: nat where "index_in_ksi_im = 4"
definition index_in_dksi_re :: nat where "index_in_dksi_re = 5"
definition index_in_dksi_im :: nat where "index_in_dksi_im = 6"
definition index_in_ah_re :: nat where "index_in_ah_re = 7"
definition index_in_ah_im :: nat where "index_in_ah_im = 8"
definition index_in_dah_re :: nat where "index_in_dah_re = 9"
definition index_in_dah_im :: nat where "index_in_dah_im = 10"
definition in_size :: nat where "in_size = 11"

datatype linear_or_logarithmic = linear | logarithmic

datatype primordial_spectrum_type = analytic_Pk | inflation_V

datatype potential_shape = polynomial

text \<open>
  The fields of \<open>struct primordial\<close> that the modelled routines read or write.
  Tables indexed by the mode and by a flat position are functions of both;
  \<open>lnk\<close> is the list of its \<open>lnk_size\<close> entries.
\<close>

record primordial =
  k_pivot :: real
  primordial_spec_type :: primordial_spectrum_type
  A_s :: real
  n_s :: real
  alpha_s :: real
  r :: real
  n_t :: real
  alpha_t :: real
  potential :: potential_shape
  V0 :: real
  V1 :: real
  V2 :: real
  V3 :: real
  V4 :: real
  phi_pivot :: real
  lnk :: "real list"
  ic_size :: "nat \<Rightarrow> nat"
  ic_ic_size :: "nat \<Rightarrow> nat"
  is_non_zero :: "nat \<Rightarrow> nat \<Rightarrow> bool"
  amplitude :: "nat \<Rightarrow> nat \<Rightarrow> real"
  tilt :: "nat \<Rightarrow> nat \<Rightarrow> real"
  running :: "nat \<Rightarrow> nat \<Rightarrow> real"
  lnpk :: "nat \<Rightarrow> nat \<Rightarrow> real"
  ddlnpk :: "nat \<Rightarrow> nat \<Rightarrow> real"

text \<open>The fields of \<open>struct precision\<close> and \<open>struct perturbs\<close> that are read.\<close>

record precision =
  k_per_decade_primordial :: real
  primordial_inflation_ratio_min :: real
  primordial_inflation_ratio_max :: real
  primordial_inflation_phi_ini_maxit :: int
  primordial_inflation_pt_stepsize :: real
  primordial_inflation_bg_stepsize :: real
  primordial_inflation_tol_integration :: real
  primordial_inflation_attractor_precision_pivot :: real
  primordial_inflation_attractor_precision_initial :: real
  primordial_inflation_attractor_maxit :: int
  primordial_inflation_jump_initial :: real
  primordial_inflation_tol_curvature :: real
  smallest_allowed_variation :: real

record perturbs =
  has_scalars :: bool
  has_tensors :: bool
  index_md_scalars :: nat
  index_md_tensors :: nat

text \<open>
  Every \<open>class_test\<close> that fires and every failing \<open>class_call\<close> returns
  \<open>_FAILURE_\<close> with a message; the constructors below are those messages, with the
  numbers that are printed into them. A failure of a routine that is not part of this
  file (the integrator, the spline tools) is \<open>External\<close> with that routine's message.
\<close>

datatype error =
    K_not_positive real
  | K_out_of_range real real real
  | Potential_not_positive double
  | Potential_slope_not_negative double double
  | Epsilon_crossing double
  | No_attractor int double double
  | Initial_aH_too_large
  | Negative_curvature_spectrum
  | Negative_tensor_spectrum
  | Lnk_table_empty
  | External string

section \<open>Potential, its check, and the slow-roll parameter\<close>

text \<open>\<open>primordial_inflation_potential\<close>: returns \<open>(V, dV, ddV)\<close>; it never fails.\<close>

definition primordial_inflation_potential ::
  "primordial \<Rightarrow> double \<Rightarrow> double \<times> double \<times> double" where
  "primordial_inflation_potential ppm phi =
    (case potential ppm of polynomial \<Rightarrow>
      (Num (V0 ppm) + (phi - Num (phi_pivot ppm)) * Num (V1 ppm)
         + (phi - Num (phi_pivot ppm))^2 / 2 * Num (V2 ppm)
         + (phi - Num (phi_pivot ppm))^3 / 6 * Num (V3 ppm)
         + (phi - Num (phi_pivot ppm))^4 / 24 * Num (V4 ppm),
       Num (V1 ppm) + (phi - Num (phi_pivot ppm)) * Num (V2 ppm)
         + (phi - Num (phi_pivot ppm))^2 / 2 * Num (V3 ppm)
         + (phi - Num (phi_pivot ppm))^3 / 6 * Num (V4 ppm),
       Num (V2 ppm) + (phi - Num (phi_pivot ppm)) * Num (V3 ppm)
         + (phi - Num (phi_pivot ppm))^2 / 2 * Num (V4 ppm)))"

text \<open>\<open>primordial_inflation_check_potential\<close>: two tests, in this order.\<close>

definition primordial_inflation_check_potential :: "primordial \<Rightarrow> double \<Rightarrow> error + unit" where
  "primordial_inflation_check_potential ppm phi =
    (case primordial_inflation_potential ppm phi of (V, dV, ddV) \<Rightarrow>
      if V \<le> 0 then Inl (Potential_not_positive phi)
      else if dV \<ge> 0 then Inl (Potential_slope_not_negative phi dV)
      else Inr ())"

text \<open>\<open>primordial_inflation_get_epsilon\<close>: the potential is evaluated at the argument.\<close>

definition primordial_inflation_get_epsilon :: "primordial \<Rightarrow> double \<Rightarrow> double" where
  "primordial_inflation_get_epsilon ppm phi =
    (case primordial_inflation_potential ppm phi of (V, dV, ddV) \<Rightarrow>
      1 / 16 / Num pi * (dV / V)^2)"

section \<open>The derivative function\<close>

text \<open>
  \<open>primordial_inflation_derivs\<close>. \<open>N\<close> and \<open>k\<close> are the fields of the
  parameters-and-workspace structure that are set by the caller; the other fields of
  that structure are scratch values of this routine. The routine writes the background
  slots of \<open>dy\<close>, returns there when \<open>N\<close> is the background size, and otherwise
  writes the perturbation slots too. It never fails: when the sum under the square root
  is negative, \<open>aH\<close> is NaN and so is every slot computed from it.
\<close>

definition primordial_inflation_derivs ::
  "primordial \<Rightarrow> nat \<Rightarrow> double \<Rightarrow> double \<Rightarrow> vec \<Rightarrow> vec \<Rightarrow> vec" where
  "primordial_inflation_derivs ppm N k tau y dy =
    (case primordial_inflation_potential ppm (y index_in_phi) of (V, dV, ddV) \<Rightarrow>
      let a2V = y index_in_a * y index_in_a * V;
          a2dV = y index_in_a * y index_in_a * dV;
          aH = sqrt_double ((8 * Num pi / 3)
                 * (0.5 * y index_in_dphi * y index_in_dphi + a2V));
          dy = dy(index_in_a := y index_in_a * aH);
          dy = dy(index_in_phi := y index_in_dphi);
          dy = dy(index_in_dphi := - 2 * aH * y index_in_dphi - a2dV)
      in if N = in_bg_size then dy
         else
           let a2ddV = y index_in_a * y index_in_a * ddV;
               zpp_over_z = 2 * aH * aH - a2ddV
                 - 4 * Num pi * (7 * y index_in_dphi * y index_in_dphi
                                 + 4 * y index_in_dphi / aH * a2dV)
                 + 32 * Num pi * Num pi * (y index_in_dphi)^4 / aH^2;
               app_over_a = 2 * aH * aH - 4 * Num pi * y index_in_dphi * y index_in_dphi;
               dy = dy(index_in_ksi_re := y index_in_dksi_re);
               dy = dy(index_in_ksi_im := y index_in_dksi_im);
               dy = dy(index_in_dksi_re := - (k * k - zpp_over_z) * y index_in_ksi_re);
               dy = dy(index_in_dksi_im := - (k * k - zpp_over_z) * y index_in_ksi_im);
               dy = dy(index_in_ah_re := y index_in_dah_re);
               dy = dy(index_in_ah_im := y index_in_dah_im);
               dy = dy(index_in_dah_re := - (k * k - app_over_a) * y index_in_ah_re);
               dy = dy(index_in_dah_im := - (k * k - app_over_a) * y index_in_ah_im)
           in dy)"

section \<open>The external integrator\<close>

text \<open>
  The generic integrator is not part of this file. It is a parameter of the model:
  three routines over a workspace of some type \<open>'w\<close>, each of which may fail with its
  own message. \<open>generic_integrator f tau_start tau_end y tol minvar w\<close> gets the
  derivative function (already applied to its parameters) and returns the new \<open>y\<close>
  and workspace.
\<close>

record 'w integrator =
  initialize_generic_integrator :: "nat \<Rightarrow> string + 'w"
  generic_integrator ::
    "(double \<Rightarrow> vec \<Rightarrow> vec \<Rightarrow> vec) \<Rightarrow> double \<Rightarrow> double \<Rightarrow> vec \<Rightarrow> real \<Rightarrow> real \<Rightarrow> 'w
       \<Rightarrow> string + vec \<times> 'w"
  cleanup_generic_integrator :: "'w \<Rightarrow> string + unit"

section \<open>Background evolver\<close>

text \<open>
  The local variables of \<open>primordial_inflation_evolve_background\<close> that live
  across iterations of its stepping loop, with the integrator's workspace.
\<close>

record 'w bg_loop =
  bg_y :: vec
  bg_dy :: vec
  bg_tau_end :: double
  bg_dtau :: double
  bg_epsilon :: double
  bg_gi :: 'w

text \<open>
  The field \<open>k\<close> of the parameters is not set by the background routines, and the
  derivative function does not read it when \<open>N\<close> is the background size; the model
  passes 0.
\<close>

definition bg_stepsize_dtau :: "precision \<Rightarrow> vec \<Rightarrow> vec \<Rightarrow> double" where
  "bg_stepsize_dtau ppr y dy =
    (let aH = dy index_in_a / y index_in_a
     in Num (primordial_inflation_bg_stepsize ppr)
          * min_double (1 / aH) \<bar>y index_in_dphi / dy index_in_dphi\<bar>)"

text \<open>One iteration of the stepping loop (the body of the \<open>while\<close>).\<close>

definition evolve_background_step ::
  "primordial \<Rightarrow> precision \<Rightarrow> 'w integrator \<Rightarrow> 'w bg_loop \<Rightarrow> error + 'w bg_loop" where
  "evolve_background_step ppm ppr gi s =
    (case primordial_inflation_check_potential ppm (bg_y s index_in_phi) of
       Inl e \<Rightarrow> Inl e
     | Inr _ \<Rightarrow>
        let tau_start = bg_tau_end s;
            dy = primordial_inflation_derivs ppm in_bg_size 0 tau_start (bg_y s) (bg_dy s);
            dtau = bg_stepsize_dtau ppr (bg_y s) dy;
            tau_end = tau_start + dtau
        in case generic_integrator gi (primordial_inflation_derivs ppm in_bg_size 0)
                  tau_start tau_end (bg_y s)
                  (primordial_inflation_tol_integration ppr)
                  (smallest_allowed_variation ppr) (bg_gi s) of
             Inl m \<Rightarrow> Inl (External m)
           | Inr (y, w) \<Rightarrow>
              let epsilon_old = bg_epsilon s;
                  epsilon = primordial_inflation_get_epsilon ppm (y index_in_dphi)
              in if epsilon > 1 \<and> epsilon_old \<le> 1
                 then Inl (Epsilon_crossing (y index_in_dphi))
                 else Inr \<lparr>bg_y = y, bg_dy = dy, bg_tau_end = tau_end, bg_dtau = dtau,
                           bg_epsilon = epsilon, bg_gi = w\<rparr>)"

text \<open>
  The stepping loop. It need not terminate: the result is \<open>None\<close> when it runs
  forever, \<open>Some (Inl e)\<close> when an iteration fails, and \<open>Some (Inr s)\<close> with the
  variables at the exit otherwise.
\<close>

partial_function (option) evolve_background_loop ::
  "primordial \<Rightarrow> precision \<Rightarrow> 'w integrator \<Rightarrow> double \<Rightarrow> 'w bg_loop
     \<Rightarrow> (error + 'w bg_loop) option" where
  "evolve_background_loop ppm ppr gi phi_stop s =
    (if bg_y s index_in_phi \<le> phi_stop - bg_y s index_in_dphi * bg_dtau s
     then (case evolve_background_step ppm ppr gi s of
             Inl e \<Rightarrow> Some (Inl e)
           | Inr s' \<Rightarrow> evolve_background_loop ppm ppr gi phi_stop s')
     else Some (Inr s))"

text \<open>The statements after the loop: one more derivative, and the extrapolation.\<close>

definition evolve_background_extrapolate ::
  "primordial \<Rightarrow> double \<Rightarrow> 'w bg_loop \<Rightarrow> vec \<times> vec" where
  "evolve_background_extrapolate ppm phi_stop s =
    (let dy = primordial_inflation_derivs ppm in_bg_size 0 (bg_tau_end s) (bg_y s) (bg_dy s);
         y = bg_y s;
         dtau = (phi_stop - y index_in_phi) / dy index_in_dphi;
         y = y(index_in_a := y index_in_a + dy index_in_a * dtau);
         y = y(index_in_phi := y index_in_phi + dy index_in_phi * dtau);
         y = y(index_in_dphi := y index_in_dphi + dy index_in_dphi * dtau)
     in (y, dy))"

text \<open>\<open>primordial_inflation_evolve_background\<close>: returns the arrays \<open>y\<close> and \<open>dy\<close>.\<close>

definition primordial_inflation_evolve_background ::
  "primordial \<Rightarrow> precision \<Rightarrow> 'w integrator \<Rightarrow> vec \<Rightarrow> vec \<Rightarrow> double
     \<Rightarrow> (error + vec \<times> vec) option" where
  "primordial_inflation_evolve_background ppm ppr gi y dy phi_stop =
    (case initialize_generic_integrator gi in_bg_size of
       Inl m \<Rightarrow> Some (Inl (External m))
     | Inr w \<Rightarrow>
        let epsilon = primordial_inflation_get_epsilon ppm (y index_in_dphi);
            tau_end = 0;
            dy = primordial_inflation_derivs ppm in_bg_size 0 tau_end y dy;
            dtau = bg_stepsize_dtau ppr y dy
        in case evolve_background_loop ppm ppr gi phi_stop
                  \<lparr>bg_y = y, bg_dy = dy, bg_tau_end = tau_end, bg_dtau = dtau,
                   bg_epsilon = epsilon, bg_gi = w\<rparr> of
             None \<Rightarrow> None
           | Some (Inl e) \<Rightarrow> Some (Inl e)
           | Some (Inr s) \<Rightarrow>
              (case cleanup_generic_integrator gi (bg_gi s) of
                 Inl m \<Rightarrow> Some (Inl (External m))
               | Inr _ \<Rightarrow> Some (Inr (evolve_background_extrapolate ppm phi_stop s))))"

section \<open>Horizon-crossing tracker\<close>





section \<open>Mode integrator for one wavenumber\<close>

definition pt_stepsize_dtau :: "precision \<Rightarrow> double \<Rightarrow> vec \<Rightarrow> vec \<Rightarrow> double" where
  "pt_stepsize_dtau ppr k y dy =
    Num (primordial_inflation_pt_stepsize ppr) * 2 * Num pi
      / max_double (sqrt_double \<bar>dy index_in_dksi_re / y index_in_ksi_re\<bar>) k"

text \<open>
  The variables that one iteration of the \<open>do ... while\<close> loop reads. The iteration
  also sets \<open>aH\<close> and \<open>dlnPdN\<close>, which the loop test reads; they are returned
  beside the variables.
\<close>

record 'w pt_loop =
  pt_y :: vec
  pt_dy :: vec
  pt_tau_end :: double
  pt_dtau :: double
  pt_curvature_new :: double
  pt_gi :: 'w

definition one_k_step ::
  "primordial \<Rightarrow> precision \<Rightarrow> 'w integrator \<Rightarrow> double \<Rightarrow> 'w pt_loop
     \<Rightarrow> error + 'w pt_loop \<times> double \<times> double" where
  "one_k_step ppm ppr gi k s =
    (let tau_start = pt_tau_end s;
         tau_end = tau_start + pt_dtau s
     in case generic_integrator gi (primordial_inflation_derivs ppm in_size k)
               tau_start tau_end (pt_y s)
               (primordial_inflation_tol_integration ppr)
               (smallest_allowed_variation ppr) (pt_gi s) of
          Inl m \<Rightarrow> Inl (External m)
        | Inr (y, w) \<Rightarrow>
           let dy = primordial_inflation_derivs ppm in_size k tau_end y (pt_dy s);
               dtau = pt_stepsize_dtau ppr k y dy;
               aH = dy index_in_a / y index_in_a;
               curvature_old = pt_curvature_new s;
               z = y index_in_a * y index_in_dphi / aH;
               ksi2 = y index_in_ksi_re * y index_in_ksi_re
                      + y index_in_ksi_im * y index_in_ksi_im;
               curvature_new = k * k * k / 2 / Num pi / Num pi * ksi2 / z / z;
               dlnPdN = (curvature_new - curvature_old) / dtau * y index_in_a
                        / dy index_in_a / curvature_new
           in Inr (\<lparr>pt_y = y, pt_dy = dy, pt_tau_end = tau_end, pt_dtau = dtau,
                     pt_curvature_new = curvature_new, pt_gi = w\<rparr>, aH, dlnPdN))"

text \<open>
  The \<open>do ... while\<close> loop: the body runs, then the test
  \<open>(k/aH >= ratio_max) || (fabs(dlnPdN) > tol_curvature)\<close> decides whether it runs
  again.
\<close>

partial_function (option) one_k_loop ::
  "primordial \<Rightarrow> precision \<Rightarrow> 'w integrator \<Rightarrow> double \<Rightarrow> 'w pt_loop
     \<Rightarrow> (error + 'w pt_loop \<times> double \<times> double) option" where
  "one_k_loop ppm ppr gi k s =
    (case one_k_step ppm ppr gi k s of
       Inl e \<Rightarrow> Some (Inl e)
     | Inr (s', aH, dlnPdN) \<Rightarrow>
        if k / aH \<ge> Num (primordial_inflation_ratio_max ppr)
           \<or> \<bar>dlnPdN\<bar> > Num (primordial_inflation_tol_curvature ppr)
        then one_k_loop ppm ppr gi k s'
        else Some (Inr (s', aH, dlnPdN)))"

text \<open>The statements after the loop: the cleanup and the two outputs.\<close>

definition one_k_outputs ::
  "'w integrator \<Rightarrow> double \<Rightarrow> 'w pt_loop \<Rightarrow> (error + double \<times> double \<times> vec \<times> vec) option" where
  "one_k_outputs gi k s =
    (case cleanup_generic_integrator gi (pt_gi s) of
       Inl m \<Rightarrow> Some (Inl (External m))
     | Inr _ \<Rightarrow>
        let y = pt_y s;
            curvature = pt_curvature_new s;
            ah2 = y index_in_ah_re * y index_in_ah_re
                  + y index_in_ah_im * y index_in_ah_im;
            tensor = 32 * k * k * k / Num pi * ah2 / y index_in_a / y index_in_a
        in Some (Inr (curvature, tensor, y, pt_dy s)))"

text \<open>
  \<open>primordial_inflation_one_k\<close>: returns \<open>curvature\<close>, \<open>tensor\<close> and the arrays.
\<close>

definition primordial_inflation_one_k ::
  "primordial \<Rightarrow> precision \<Rightarrow> 'w integrator \<Rightarrow> double \<Rightarrow> vec \<Rightarrow> vec
     \<Rightarrow> (error + double \<times> double \<times> vec \<times> vec) option" where
  "primordial_inflation_one_k ppm ppr gi k y dy =
    (case initialize_generic_integrator gi in_size of
       Inl m \<Rightarrow> Some (Inl (External m))
     | Inr w \<Rightarrow>
        let y = y(index_in_ksi_re := 1 / sqrt_double (2 * k));
            y = y(index_in_ksi_im := 0);
            y = y(index_in_dksi_re := 0);
            y = y(index_in_dksi_im := - k * y index_in_ksi_re);
            y = y(index_in_ah_re := 1 / sqrt_double (2 * k));
            y = y(index_in_ah_im := 0);
            y = y(index_in_dah_re := 0);
            y = y(index_in_dah_im := - k * y index_in_ah_re);
            curvature_new = 10000000000;
            tau_end = 0;
            dy = primordial_inflation_derivs ppm in_size k tau_end y dy;
            dtau = pt_stepsize_dtau ppr k y dy
        in case one_k_loop ppm ppr gi k
                  \<lparr>pt_y = y, pt_dy = dy, pt_tau_end = tau_end, pt_dtau = dtau,
                   pt_curvature_new = curvature_new, pt_gi = w\<rparr> of
             None \<Rightarrow> None
           | Some (Inl e) \<Rightarrow> Some (Inl e)
           | Some (Inr (s, aH, dlnPdN)) \<Rightarrow> one_k_outputs gi k s)"

section \<open>Attractor finder\<close>

text \<open>
  The variables of \<open>primordial_inflation_find_attractor\<close> that live across
  iterations of its loop.
\<close>

record attractor_loop =
  at_phi :: double
  at_counter :: int
  at_dphidt_0new :: double
  at_dphidt_0old :: double
  at_y :: vec
  at_dy :: vec

text \<open>
  One iteration of the loop. \<open>V_0\<close> and \<open>dV_0\<close> are the values computed before
  the loop.
\<close>

definition find_attractor_step ::
  "primordial \<Rightarrow> precision \<Rightarrow> 'w integrator \<Rightarrow> double \<Rightarrow> double \<Rightarrow> double \<Rightarrow> double
     \<Rightarrow> attractor_loop \<Rightarrow> (error + attractor_loop) option" where
  "find_attractor_step ppm ppr gi phi_0 precision V_0 dV_0 s =
    (let counter = at_counter s + 1
     in if counter \<ge> primordial_inflation_attractor_maxit ppr
        then Some (Inl (No_attractor counter phi_0 precision))
        else
          let dphidt_0old = at_dphidt_0new s;
              phi = at_phi s + dV_0 / V_0 / 16 / Num pi
          in case primordial_inflation_check_potential ppm phi of
               Inl e \<Rightarrow> Some (Inl e)
             | Inr _ \<Rightarrow>
                (case primordial_inflation_potential ppm phi of (V, dV, ddV) \<Rightarrow>
                  let a = 1;
                      dphidt = - dV / 3 / sqrt_double ((8 * Num pi / 3) * V);
                      y = (at_y s)(index_in_a := a);
                      y = y(index_in_phi := phi);
                      y = y(index_in_dphi := a * dphidt)
                  in case primordial_inflation_evolve_background ppm ppr gi y (at_dy s) phi_0 of
                       None \<Rightarrow> None
                     | Some (Inl e) \<Rightarrow> Some (Inl e)
                     | Some (Inr (y, dy)) \<Rightarrow>
                        Some (Inr \<lparr>at_phi = phi, at_counter = counter,
                                   at_dphidt_0new = y index_in_dphi / y index_in_a,
                                   at_dphidt_0old = dphidt_0old,
                                   at_y = y, at_dy = dy\<rparr>)))"

partial_function (option) find_attractor_loop ::
  "primordial \<Rightarrow> precision \<Rightarrow> 'w integrator \<Rightarrow> double \<Rightarrow> double \<Rightarrow> double \<Rightarrow> double
     \<Rightarrow> attractor_loop \<Rightarrow> (error + attractor_loop) option" where
  "find_attractor_loop ppm ppr gi phi_0 precision V_0 dV_0 s =
    (if \<bar>at_dphidt_0new s / at_dphidt_0old s - 1\<bar> \<ge> precision
     then (case find_attractor_step ppm ppr gi phi_0 precision V_0 dV_0 s of
             None \<Rightarrow> None
           | Some (Inl e) \<Rightarrow> Some (Inl e)
           | Some (Inr s') \<Rightarrow> find_attractor_loop ppm ppr gi phi_0 precision V_0 dV_0 s')
     else Some (Inr s))"

text \<open>
  \<open>primordial_inflation_find_attractor\<close>: returns \<open>H_0\<close>, \<open>dphidt_0\<close> and the
  arrays. The local variable \<open>phi\<close> is declared without a value, and the first
  statement evaluates the potential at it; \<open>phi = phi_0\<close> comes two statements later.
  What the variable holds at that first read is whatever its stack slot held, which the
  model takes as the argument \<open>phi_uninit\<close>.
\<close>

definition primordial_inflation_find_attractor ::
  "primordial \<Rightarrow> precision \<Rightarrow> 'w integrator \<Rightarrow> double \<Rightarrow> double \<Rightarrow> double \<Rightarrow> vec \<Rightarrow> vec
     \<Rightarrow> (error + double \<times> double \<times> vec \<times> vec) option" where
  "primordial_inflation_find_attractor ppm ppr gi phi_uninit phi_0 precision y dy =
    (case primordial_inflation_potential ppm phi_uninit of (V_0, dV_0, ddV_0) \<Rightarrow>
      let dphidt_0new = - dV_0 / 3 / sqrt_double ((8 * Num pi / 3) * V_0);
          phi = phi_0;
          counter = 0;
          dphidt_0old = dphidt_0new / (precision + 2)
      in case find_attractor_loop ppm ppr gi phi_0 precision V_0 dV_0
                \<lparr>at_phi = phi, at_counter = counter, at_dphidt_0new = dphidt_0new,
                 at_dphidt_0old = dphidt_0old, at_y = y, at_dy = dy\<rparr> of
           None \<Rightarrow> None
         | Some (Inl e) \<Rightarrow> Some (Inl e)
         | Some (Inr s) \<Rightarrow>
            let dphidt_0 = at_dphidt_0new s;
                H_0 = sqrt_double ((8 * Num pi / 3)
                            * (0.5 * at_dphidt_0new s * at_dphidt_0new s + V_0))
            in Some (Inr (H_0, dphidt_0, at_y s, at_dy s)))"

section \<open>Spectrum assembler: the loop over the wavenumbers\<close>





section \<open>Spectrum lookup\<close>

text \<open>
  Modelled from the spec: the macro \<open>index_symmetric_matrix\<close> is not in this file.
  The spec gives the position of the pair \<open>(i, j)\<close>, \<open>i \<le> j\<close>, of \<open>n\<close>
  initial conditions in the packed upper triangle as
  \<open>i n - i (i - 1) / 2 + (j - i)\<close>. Every call in this file has \<open>i \<le> j\<close>.
\<close>

definition index_symmetric_matrix :: "nat \<Rightarrow> nat \<Rightarrow> nat \<Rightarrow> nat" where
  "index_symmetric_matrix i j n = i * n - i * (i - 1) div 2 + (j - i)"

text \<open>\<open>primordial_analytic_spectrum\<close>: returns \<open>pk\<close>; it never fails.\<close>

definition primordial_analytic_spectrum :: "primordial \<Rightarrow> nat \<Rightarrow> nat \<Rightarrow> real \<Rightarrow> real" where
  "primordial_analytic_spectrum ppm index_mode index_ic1_ic2 k =
    (if is_non_zero ppm index_mode index_ic1_ic2
     then amplitude ppm index_mode index_ic1_ic2
          * exp ((tilt ppm index_mode index_ic1_ic2 - 1) * ln (k / k_pivot ppm)
                 + 0.5 * running ppm index_mode index_ic1_ic2 * (ln (k / k_pivot ppm))^2)
     else 0)"

text \<open>
  The spline interpolation \<open>array_interpolate_spline\<close> is not part of this file. As a
  parameter it gets the nodes, the table and its second derivatives for the mode, the
  number of columns, the abscissa and the output array, and returns its failure message,
  if any, with the output array as it left it.
\<close>

type_synonym spline_interpolation =
  "real list \<Rightarrow> (nat \<Rightarrow> real) \<Rightarrow> (nat \<Rightarrow> real) \<Rightarrow> nat \<Rightarrow> real \<Rightarrow> (nat \<Rightarrow> real)
     \<Rightarrow> string option \<times> (nat \<Rightarrow> real)"

text \<open>The double loop of the direct computation.\<close>

definition direct_computation :: "primordial \<Rightarrow> nat \<Rightarrow> real \<Rightarrow> (nat \<Rightarrow> real) \<Rightarrow> (nat \<Rightarrow> real)" where
  "direct_computation ppm index_mode lnk_in output =
    fold (\<lambda>index_ic1.
      fold (\<lambda>index_ic2 output.
        let index_ic1_ic2 =
              index_symmetric_matrix index_ic1 index_ic2 (ic_size ppm index_mode)
        in if is_non_zero ppm index_mode index_ic1_ic2
           then output(index_ic1_ic2 :=
                  primordial_analytic_spectrum ppm index_mode index_ic1_ic2 (exp lnk_in))
           else output(index_ic1_ic2 := 0))
        [index_ic1..<ic_size ppm index_mode])
      [0..<ic_size ppm index_mode] output"

text \<open>The two loops that follow the direct computation in logarithmic mode.\<close>

definition direct_to_logarithmic :: "primordial \<Rightarrow> nat \<Rightarrow> (nat \<Rightarrow> real) \<Rightarrow> (nat \<Rightarrow> real)" where
  "direct_to_logarithmic ppm index_mode output =
    (let n = ic_size ppm index_mode;
         output = fold (\<lambda>index_ic1 output.
                    let index_ic1_ic2 = index_symmetric_matrix index_ic1 index_ic1 n
                    in output(index_ic1_ic2 := ln (output index_ic1_ic2)))
                  [0..<n] output
     in fold (\<lambda>index_ic1.
          fold (\<lambda>index_ic2 output.
            let index_ic1_ic2 = index_symmetric_matrix index_ic1 index_ic2 n
            in if is_non_zero ppm index_mode index_ic1_ic2
               then output(index_ic1_ic2 := output index_ic1_ic2
                      / sqrt (output (index_symmetric_matrix index_ic1 index_ic1 n)
                              * output (index_symmetric_matrix index_ic2 index_ic2 n)))
               else output)
            [index_ic1 + 1..<n])
          [0..<n] output)"

text \<open>The two loops that follow the interpolation in linear mode.\<close>

definition interpolated_to_linear :: "primordial \<Rightarrow> nat \<Rightarrow> (nat \<Rightarrow> real) \<Rightarrow> (nat \<Rightarrow> real)" where
  "interpolated_to_linear ppm index_mode output =
    (let n = ic_size ppm index_mode;
         output = fold (\<lambda>index_ic1 output.
                    let index_ic1_ic2 = index_symmetric_matrix index_ic1 index_ic1 n
                    in output(index_ic1_ic2 := exp (output index_ic1_ic2)))
                  [0..<n] output
     in fold (\<lambda>index_ic1.
          fold (\<lambda>index_ic2 output.
            let index_ic1_ic2 = index_symmetric_matrix index_ic1 index_ic2 n
            in if is_non_zero ppm index_mode index_ic1_ic2
               then output(index_ic1_ic2 := output index_ic1_ic2
                      * sqrt (output (index_symmetric_matrix index_ic1 index_ic1 n)
                              * output (index_symmetric_matrix index_ic2 index_ic2 n)))
               else output(index_ic1_ic2 := 0))
            [index_ic1 + 1..<n])
          [0..<n] output)"

text \<open>
  \<open>primordial_spectrum_at_k\<close>: returns the failure, if any, and the output array.
  With an empty table of nodes the C code reads outside the array; the model reports it
  as \<open>Lnk_table_empty\<close>.
\<close>

definition primordial_spectrum_at_k ::
  "primordial \<Rightarrow> spline_interpolation \<Rightarrow> nat \<Rightarrow> linear_or_logarithmic \<Rightarrow> real
     \<Rightarrow> (nat \<Rightarrow> real) \<Rightarrow> error option \<times> (nat \<Rightarrow> real)" where
  "primordial_spectrum_at_k ppm array_interpolate_spline index_mode mode input output =
    (if mode = linear \<and> input \<le> 0 then (Some (K_not_positive input), output)
     else
       let lnk_in = (if mode = linear then ln input else input)
       in if lnk ppm = [] then (Some Lnk_table_empty, output)
          else if lnk_in > lnk ppm ! (length (lnk ppm) - 1) \<or> lnk_in < lnk ppm ! 0
          then
            if primordial_spec_type ppm \<noteq> analytic_Pk
            then (Some (K_out_of_range (exp lnk_in) (exp (lnk ppm ! 0))
                          (exp (lnk ppm ! (length (lnk ppm) - 1)))), output)
            else
              let output = direct_computation ppm index_mode lnk_in output
              in (None, if mode = logarithmic
                        then direct_to_logarithmic ppm index_mode output else output)
          else
            case array_interpolate_spline (lnk ppm) (lnpk ppm index_mode)
                   (ddlnpk ppm index_mode) (ic_ic_size ppm index_mode) lnk_in output of
              (Some m, output) \<Rightarrow> (Some (External m), output)
            | (None, output) \<Rightarrow>
               (None, if mode = linear
                      then interpolated_to_linear ppm index_mode output else output))"

section \<open>Spectral parameters derived in \<open>primordial_init\<close>\<close>

text \<open>
  A call of \<open>primordial_spectrum_at_k\<close> in logarithmic mode whose output array is the
  address of one local variable, which holds \<open>v\<close> before the call: the result is what
  the variable holds after a successful call.
\<close>

definition spectrum_at_k_into_local ::
  "primordial \<Rightarrow> spline_interpolation \<Rightarrow> nat \<Rightarrow> real \<Rightarrow> real \<Rightarrow> error + real" where
  "spectrum_at_k_into_local ppm array_interpolate_spline index_mode input v =
    (case primordial_spectrum_at_k ppm array_interpolate_spline index_mode logarithmic
            input (\<lambda>_. v) of
       (Some e, output) \<Rightarrow> Inl e
     | (None, output) \<Rightarrow> Inr (output 0))"

text \<open>
  The last block of \<open>primordial_init\<close>. The locals \<open>lnpk_pivot\<close>, \<open>lnpk_plus\<close>
  and \<open>lnpk_minus\<close> have no value before the first call that writes them; what they
  hold there is the argument \<open>locals\<close>.
\<close>

definition primordial_init_spectral_parameters ::
  "precision \<Rightarrow> perturbs \<Rightarrow> primordial \<Rightarrow> spline_interpolation \<Rightarrow> real \<times> real \<times> real
     \<Rightarrow> error + primordial" where
  "primordial_init_spectral_parameters ppr ppt ppm array_interpolate_spline locals =
    (if primordial_spec_type ppm \<noteq> analytic_Pk then
       let dlnk = ln 10 / k_per_decade_primordial ppr
       in case
            (if has_scalars ppt then
               (case locals of (lnpk_pivot, lnpk_plus, lnpk_minus) \<Rightarrow>
                 case spectrum_at_k_into_local ppm array_interpolate_spline
                        (index_md_scalars ppt) (ln (k_pivot ppm)) lnpk_pivot of
                   Inl e \<Rightarrow> Inl e
                 | Inr lnpk_pivot \<Rightarrow>
                 case spectrum_at_k_into_local ppm array_interpolate_spline
                        (index_md_scalars ppt) (ln (k_pivot ppm) + dlnk) lnpk_plus of
                   Inl e \<Rightarrow> Inl e
                 | Inr lnpk_plus \<Rightarrow>
                 case spectrum_at_k_into_local ppm array_interpolate_spline
                        (index_md_scalars ppt) (ln (k_pivot ppm) - dlnk) lnpk_minus of
                   Inl e \<Rightarrow> Inl e
                 | Inr lnpk_minus \<Rightarrow>
                    Inr (ppm\<lparr>A_s := exp lnpk_pivot,
                              n_s := (lnpk_plus - lnpk_minus) / (2 * dlnk) + 1,
                              alpha_s := (lnpk_plus - 2 * lnpk_pivot + lnpk_minus) / dlnk^2\<rparr>,
                         (lnpk_pivot, lnpk_plus, lnpk_minus)))
             else Inr (ppm, locals)) of
            Inl e \<Rightarrow> Inl e
          | Inr (ppm, locals) \<Rightarrow>
             if has_tensors ppt then
               (case locals of (lnpk_pivot, lnpk_plus, lnpk_minus) \<Rightarrow>
                 case spectrum_at_k_into_local ppm array_interpolate_spline
                        (index_md_tensors ppt) (ln (k_pivot ppm)) lnpk_pivot of
                   Inl e \<Rightarrow> Inl e
                 | Inr lnpk_pivot \<Rightarrow>
                 case spectrum_at_k_into_local ppm array_interpolate_spline
                        (index_md_tensors ppt) (ln (k_pivot ppm) + dlnk) lnpk_plus of
                   Inl e \<Rightarrow> Inl e
                 | Inr lnpk_plus \<Rightarrow>
                 case spectrum_at_k_into_local ppm array_interpolate_spline
                        (index_md_tensors ppt) (ln (k_pivot ppm) - dlnk) lnpk_minus of
                   Inl e \<Rightarrow> Inl e
                 | Inr lnpk_minus \<Rightarrow>
                    Inr (ppm\<lparr>r := exp lnpk_pivot / A_s ppm,
                              n_t := (lnpk_plus - lnpk_minus) / (2 * dlnk),
                              alpha_t := (lnpk_plus - 2 * lnpk_pivot + lnpk_minus) / dlnk^2\<rparr>))
             else Inr ppm
     else Inr ppm)"

section \<open>Concrete inputs\<close>

text \<open>
  Structures and stand-ins for the external routines, used where a property is
  evaluated at a concrete input.
\<close>

definition ppm_fixture :: primordial where
  "ppm_fixture =
    \<lparr>k_pivot = 1, primordial_spec_type = analytic_Pk, A_s = 2, n_s = 2, alpha_s = 0,
     r = 1 / 2, n_t = 0, alpha_t = 0, potential = polynomial,
     V0 = 1, V1 = - 1, V2 = 0, V3 = 0, V4 = 0, phi_pivot = 0,
     lnk = [0, 1], ic_size = (\<lambda>_. 2), ic_ic_size = (\<lambda>_. 3),
     is_non_zero = (\<lambda>_ i. i \<noteq> 1),
     amplitude = (\<lambda>_ i. if i = 1 then 0 else 2), tilt = (\<lambda>_ i. if i = 1 then 0 else 2),
     running = (\<lambda>_ _. 0), lnpk = (\<lambda>_ _. 5), ddlnpk = (\<lambda>_ _. 0)\<rparr>"

definition first_row_interpolation :: spline_interpolation where
  "first_row_interpolation nodes table table_dd n_columns x output =
    (None, (\<lambda>i. if i < n_columns then table i else output i))"

definition quadratic_interpolation :: spline_interpolation where
  "quadratic_interpolation nodes table table_dd n_columns x output =
    (None, output(0 := table 0 + table 1 * x + table 2 * x^2))"

definition ppm_inflation_table :: primordial where
  "ppm_inflation_table =
    ppm_fixture\<lparr>primordial_spec_type := inflation_V, lnk := [- 1, 1],
                ic_size := (\<lambda>_. 1), ic_ic_size := (\<lambda>_. 1), is_non_zero := (\<lambda>_ _. True),
                lnpk := (\<lambda>index_mode i.
                           if index_mode = 0 then (if i = 0 then 3 else if i = 1 then - 1 / 25 else 1 / 100)
                           else (if i = 0 then 1 else if i = 1 then - 1 / 100 else 0))\<rparr>"

definition ppr_fixture :: precision where
  "ppr_fixture =
    \<lparr>k_per_decade_primordial = ln 10,
     primordial_inflation_ratio_min = 100, primordial_inflation_ratio_max = 1 / 50,
     primordial_inflation_phi_ini_maxit = 10000,
     primordial_inflation_pt_stepsize = 1 / 100, primordial_inflation_bg_stepsize = 1 / 200,
     primordial_inflation_tol_integration = 1 / 1000,
     primordial_inflation_attractor_precision_pivot = 1 / 1000,
     primordial_inflation_attractor_precision_initial = 1 / 10,
     primordial_inflation_attractor_maxit = 10,
     primordial_inflation_jump_initial = 6 / 5,
     primordial_inflation_tol_curvature = 1 / 1000,
     smallest_allowed_variation = 1 / 1000000\<rparr>"

definition ppt_fixture :: perturbs where
  "ppt_fixture = \<lparr>has_scalars = True, has_tensors = True, index_md_scalars = 0, index_md_tensors = 1\<rparr>"

text \<open>
  Three integrators whose workspace is the number of equations. The first returns a
  prescribed array, chosen by the number of equations; the second makes one explicit
  Euler step; the third returns the array it was given with the background slots
  prescribed and with the real parts of the two mode functions replaced by the imaginary
  parts of their derivatives, so that what it was given shows in the outputs.
\<close>

definition prescribed_integrator :: "(nat \<Rightarrow> vec) \<Rightarrow> nat integrator" where
  "prescribed_integrator target =
    \<lparr>initialize_generic_integrator = (\<lambda>N. Inr N),
     generic_integrator = (\<lambda>f tau_start tau_end y tol minvar N. Inr (target N, N)),
     cleanup_generic_integrator = (\<lambda>N. Inr ())\<rparr>"

definition euler_integrator :: "nat integrator" where
  "euler_integrator =
    \<lparr>initialize_generic_integrator = (\<lambda>N. Inr N),
     generic_integrator = (\<lambda>f tau_start tau_end y tol minvar N.
        Inr ((\<lambda>i. if i < N then y i + (tau_end - tau_start) * f tau_start y (\<lambda>_. 0) i else y i), N)),
     cleanup_generic_integrator = (\<lambda>N. Inr ())\<rparr>"

definition probing_integrator :: "vec \<Rightarrow> nat integrator" where
  "probing_integrator bg =
    \<lparr>initialize_generic_integrator = (\<lambda>N. Inr N),
     generic_integrator = (\<lambda>f tau_start tau_end y tol minvar N.
        Inr (y(index_in_a := bg index_in_a, index_in_phi := bg index_in_phi,
               index_in_dphi := bg index_in_dphi,
               index_in_ah_re := y index_in_dah_im), N)),
     cleanup_generic_integrator = (\<lambda>N. Inr ())\<rparr>"

text \<open>
  An integrator that fails on every call.
\<close>

definition refusing_integrator :: "nat integrator" where
  "refusing_integrator =
    \<lparr>initialize_generic_integrator = (\<lambda>N. Inr N),
     generic_integrator = (\<lambda>f tau_start tau_end y tol minvar N. Inl ''step size too small''),
     cleanup_generic_integrator = (\<lambda>N. Inr ())\<rparr>"

text \<open>
  The potential \<open>3 / (8 pi) - 1 / 32 - phi\<close>, with one wavenumber \<open>k = 2\<close> in its
  table. \<open>mode_state A p\<close> is the array with scale factor \<open>A\<close>, field \<open>p\<close>, field
  velocity \<open>A / 4\<close> and both mode functions equal to 1. With that potential the sum
  under the square root of the derivative function is \<open>A\<^sup>2 (1 - 8 pi p / 3)\<close> times
  \<open>3 / (8 pi)\<close>: at \<open>p = 0\<close> the expansion rate \<open>aH\<close> is \<open>A\<close>, at
  \<open>p = 1 / (3 pi)\<close> the potential is negative and \<open>aH\<close> is \<open>A / 3\<close>, and at
  \<open>p = 3 / (4 pi)\<close> the sum is negative.
\<close>

definition ppm_unit_hubble :: primordial where
  "ppm_unit_hubble = ppm_fixture\<lparr>V0 := 3 / (8 * pi) - 1 / 32\<rparr>"

definition ppm_one_mode :: primordial where
  "ppm_one_mode = ppm_unit_hubble\<lparr>lnk := [ln 2]\<rparr>"

definition mode_state :: "real \<Rightarrow> real \<Rightarrow> vec" where
  "mode_state A p = (\<lambda>_. 0)(index_in_a := Num A, index_in_phi := Num p,
                       index_in_dphi := Num (A / 4),
                       index_in_ksi_re := 1, index_in_ah_re := 1)"


text \<open>
  Inputs for the background evolver and the attractor finder. \<open>bg_vec\<close> is an array
  whose background slots are given and whose other slots are 0. \<open>ppm_steep\<close> is a
  linear potential with \<open>V > 0\<close> and \<open>dV/dphi < 0\<close> on the whole range between 0
  and 1; at the state \<open>bg_vec 1 0 (1 / 4)\<close> its expansion rate \<open>aH\<close> is exactly 1.
\<close>

definition bg_vec :: "double \<Rightarrow> double \<Rightarrow> double \<Rightarrow> vec" where
  "bg_vec a phi dphi = (\<lambda>_. 0)(index_in_a := a, index_in_phi := phi, index_in_dphi := dphi)"

definition bg_loop_at :: "vec \<Rightarrow> nat bg_loop" where
  "bg_loop_at y = \<lparr>bg_y = y, bg_dy = (\<lambda>_. 0), bg_tau_end = 0, bg_dtau = 1 / 10,
                   bg_epsilon = 0, bg_gi = in_bg_size\<rparr>"

definition ppm_steep :: primordial where
  "ppm_steep = ppm_unit_hubble\<lparr>V1 := - 51 / 100\<rparr>"

text \<open>
  The potential \<open>3 / (8 pi) * (1 - phi)\<close> and a coarse background step, for the
  attractor finder.
\<close>

definition ppm_attractor :: primordial where
  "ppm_attractor = ppm_fixture\<lparr>V0 := 3 / (8 * pi), V1 := - 3 / (8 * pi)\<rparr>"

definition ppr_attractor :: precision where
  "ppr_attractor = ppr_fixture\<lparr>primordial_inflation_bg_stepsize := 2\<rparr>"

text \<open>
  With that potential, the quantities of one iteration of the attractor loop that starts
  its trial at the field value \<open>p\<close> with \<open>a = 1\<close> and aims at \<open>1 / (16 pi)\<close>:
  the slow-roll velocity of the trial, the expansion rate and the derivative of the field
  velocity that the derivative function computes there, and the ratio of the field-velocity
  slot to the scale-factor slot when the background evolver reaches its last statements
  without entering its stepping loop. They are finite numbers.
\<close>

definition trial_velocity :: "real \<Rightarrow> real" where
  "trial_velocity p = 1 / (8 * pi) / sqrt (1 - p)"

definition trial_aH :: "real \<Rightarrow> real" where
  "trial_aH p = sqrt (8 * pi / 3 * (0.5 * trial_velocity p * trial_velocity p
                                      + 1 * 1 * (3 / (8 * pi) - p * (3 / (8 * pi)))))"

definition trial_slope :: "real \<Rightarrow> real" where
  "trial_slope p = - 2 * trial_aH p * trial_velocity p - 1 * 1 * (- 3 / (8 * pi))"

definition trial_result :: "real \<Rightarrow> real" where
  "trial_result p =
     (trial_velocity p + (1 / (16 * pi) - p))
       / (1 + trial_aH p * ((1 / (16 * pi) - p) / trial_slope p))"

text \<open>The step that the background evolver computes at such a trial, as a finite number.\<close>

definition trial_dtau_value :: "real \<Rightarrow> real" where
  "trial_dtau_value p =
     2 * min (1 / (1 * trial_aH p / 1)) \<bar>trial_velocity p / trial_slope p\<bar>"

section \<open>Verified properties\<close>

lemmas index_in_defs =
  index_in_a_def index_in_phi_def index_in_dphi_def in_bg_size_def
  index_in_ksi_re_def index_in_ksi_im_def index_in_dksi_re_def index_in_dksi_im_def
  index_in_ah_re_def index_in_ah_im_def index_in_dah_re_def index_in_dah_im_def
  in_size_def

subsection \<open>Arithmetic of doubles on finite numbers\<close>

lemma numeral_double [simp]: "(numeral n :: double) = Num (numeral n)"
proof (induction n)
  case One
  show ?case by (simp only: numeral.simps one_double_def)
next
  case (Bit0 n)
  have "(numeral (num.Bit0 n) :: double) = numeral n + numeral n"
    by (simp only: numeral.simps)
  also have "\<dots> = Num (numeral n + numeral n)"
    by (simp only: Bit0 plus_double.simps)
  also have "numeral n + numeral n = (numeral (num.Bit0 n) :: real)"
    by (simp only: numeral.simps)
  finally show ?case .
next
  case (Bit1 n)
  have "(numeral (num.Bit1 n) :: double) = numeral n + numeral n + 1"
    by (simp only: numeral.simps)
  also have "\<dots> = Num (numeral n + numeral n + 1)"
    by (simp only: Bit1 plus_double.simps one_double_def)
  also have "numeral n + numeral n + 1 = (numeral (num.Bit1 n) :: real)"
    by (simp only: numeral.simps)
  finally show ?case .
qed

lemma zero_double [simp]: "(0 :: double) = Num 0"
  by (simp add: zero_double_def)

lemma one_double [simp]: "(1 :: double) = Num 1"
  by (simp add: one_double_def)

lemma power_double [simp]: "Num x ^ n = Num (x ^ n)"
  by (induction n) simp_all

lemma min_double_Num [simp]: "min_double (Num x) (Num y) = Num (min x y)"
  by (simp add: min_double_def min_def)

lemma max_double_Num [simp]: "max_double (Num x) (Num y) = Num (max x y)"
  by (simp add: max_double_def max_def)

lemma divide_double_numeral: "Num x / Num (numeral n) = Num (x / numeral n)"
  by simp

lemma divide_double_pi: "Num x / Num pi = Num (x / pi)"
  by simp

lemma divide_double_Num: "y \<noteq> 0 \<Longrightarrow> Num x / Num y = Num (x / y)"
  by simp

lemma sqrt_double_Num: "0 \<le> x \<Longrightarrow> sqrt_double (Num x) = Num (sqrt x)"
  by simp

lemma half_double: "(0.5 :: double) = Num 0.5"
  by simp

lemmas double_arith =
  numeral_double zero_double one_double half_double
  plus_double.simps(1) minus_double.simps(1) times_double.simps(1) uminus_double.simps(1)
  divide_double_numeral divide_double_pi power_double abs_double.simps(1)
  less_eq_double.simps(1) less_double.simps(1) min_double_Num max_double_Num


lemma double_NaN [simp]:
  "a + NaN = NaN" "NaN + a = NaN" "a - NaN = NaN" "NaN - a = NaN"
  "a * NaN = NaN" "NaN * a = NaN" "a / NaN = NaN" "NaN / a = NaN"
  "\<not> a \<le> NaN" "\<not> NaN \<le> a" "\<not> a < NaN" "\<not> NaN < a"
  "max_double NaN a = NaN" "min_double a NaN = NaN"
  by (cases a; simp add: max_double_def min_double_def)+

subsection \<open>Spectrum lookup\<close>

lemma fold_update_by_position:
  "fold (\<lambda>x out. out(h x := g (h x))) xs out
     = (\<lambda>j. if j \<in> h ` set xs then g j else out j)"
  by (induction xs arbitrary: out) (auto simp: fun_eq_iff)

lemma fold_fold_update_by_position:
  "fold (\<lambda>x. fold (\<lambda>z out. out(h x z := g (h x z))) (zs x)) xs out
     = (\<lambda>j. if \<exists>x \<in> set xs. \<exists>z \<in> set (zs x). j = h x z then g j else out j)"
proof (induction xs arbitrary: out)
  case Nil
  then show ?case by simp
next
  case (Cons x xs)
  have "fold (\<lambda>x. fold (\<lambda>z out. out(h x z := g (h x z))) (zs x)) (x # xs) out
      = fold (\<lambda>x. fold (\<lambda>z out. out(h x z := g (h x z))) (zs x)) xs
          (\<lambda>j. if j \<in> h x ` set (zs x) then g j else out j)"
    unfolding fold_simps fold_update_by_position [where h = "h x"] ..
  also have "\<dots> = (\<lambda>j. if \<exists>x \<in> set xs. \<exists>z \<in> set (zs x). j = h x z then g j
                        else if j \<in> h x ` set (zs x) then g j else out j)"
    by (rule Cons.IH)
  also have "\<dots> = (\<lambda>j. if \<exists>x \<in> set (x # xs). \<exists>z \<in> set (zs x). j = h x z then g j else out j)"
    by (rule ext) auto
  finally show ?case .
qed

lemma direct_computation_entries:
  "direct_computation ppm index_mode lnk_in output
     = (\<lambda>j. if \<exists>i1 < ic_size ppm index_mode. \<exists>i2. i1 \<le> i2 \<and> i2 < ic_size ppm index_mode
                  \<and> j = index_symmetric_matrix i1 i2 (ic_size ppm index_mode)
             then primordial_analytic_spectrum ppm index_mode j (exp lnk_in) else output j)"
proof -
  have inner: "(\<lambda>index_ic2 output.
        let index_ic1_ic2 =
              index_symmetric_matrix index_ic1 index_ic2 (ic_size ppm index_mode)
        in if is_non_zero ppm index_mode index_ic1_ic2
           then output(index_ic1_ic2 :=
                  primordial_analytic_spectrum ppm index_mode index_ic1_ic2 (exp lnk_in))
           else output(index_ic1_ic2 := 0))
    = (\<lambda>z out. out(index_symmetric_matrix index_ic1 z (ic_size ppm index_mode)
          := primordial_analytic_spectrum ppm index_mode
               (index_symmetric_matrix index_ic1 z (ic_size ppm index_mode)) (exp lnk_in)))"
    for index_ic1
    by (intro ext) (simp add: Let_def primordial_analytic_spectrum_def)
  show ?thesis
    unfolding direct_computation_def inner
      fold_fold_update_by_position
        [where h = "\<lambda>a b. index_symmetric_matrix a b (ic_size ppm index_mode)"
           and g = "\<lambda>j. primordial_analytic_spectrum ppm index_mode j (exp lnk_in)"
           and zs = "\<lambda>x. [x..<ic_size ppm index_mode]"]
    by (rule ext) (simp, metis atLeastLessThan_iff le_less_trans zero_le)
qed

lemma direct_computation_pair:
  assumes "i1 \<le> i2" "i2 < ic_size ppm index_mode"
  shows "direct_computation ppm index_mode lnk_in output
           (index_symmetric_matrix i1 i2 (ic_size ppm index_mode))
         = primordial_analytic_spectrum ppm index_mode
             (index_symmetric_matrix i1 i2 (ic_size ppm index_mode)) (exp lnk_in)"
proof -
  have "\<exists>j1 < ic_size ppm index_mode. \<exists>j2. j1 \<le> j2 \<and> j2 < ic_size ppm index_mode
          \<and> index_symmetric_matrix i1 i2 (ic_size ppm index_mode)
              = index_symmetric_matrix j1 j2 (ic_size ppm index_mode)"
  proof (intro exI conjI)
    show "i1 < ic_size ppm index_mode" using assms by simp
    show "i1 \<le> i2" "i2 < ic_size ppm index_mode" by fact+
  qed (rule refl)
  then show ?thesis
    unfolding direct_computation_entries by simp
qed

text \<open>
  C8. Let \<open>ln k\<close> be the logarithm of the input in linear mode and the input itself
  in logarithmic mode. If \<open>ln k\<close> lies between the first and the last node, both
  included, the result is the one of the spline interpolation in the table (its failure,
  if it fails; otherwise its output, converted in linear mode), so no out-of-range
  failure is raised. If \<open>ln k\<close> lies strictly outside and the spectrum type is not
  analytic, the function fails with the out-of-range message and leaves the output as
  it was. If it lies strictly outside and the type is analytic, the function succeeds,
  and the entry of every pair is computed by the closed formula
  \<open>A exp ((n - 1) ln (k / k_pivot) + 0.5 alpha (ln (k / k_pivot))^2)\<close> when the pair
  is marked non-zero, and is 0 otherwise; in logarithmic mode the table of these values
  then goes through the conversion loops of that mode.
\<close>

theorem spectrum_at_k_range_dispatch:
  fixes ppm :: primordial and spl :: spline_interpolation
  defines "lnk_in \<equiv> (\<lambda>mode input. if mode = linear then ln input else input)"
  assumes "lnk ppm \<noteq> []" and "mode = linear \<longrightarrow> 0 < input"
  shows
    "(lnk ppm ! 0 \<le> lnk_in mode input \<and> lnk_in mode input \<le> lnk ppm ! (length (lnk ppm) - 1) \<longrightarrow>
        (\<exists>m out. spl (lnk ppm) (lnpk ppm index_mode) (ddlnpk ppm index_mode)
                     (ic_ic_size ppm index_mode) (lnk_in mode input) output = (m, out)
           \<and> primordial_spectrum_at_k ppm spl index_mode mode input output
               = (map_option External m,
                  if m = None \<and> mode = linear then interpolated_to_linear ppm index_mode out
                  else out)))
   \<and> ((lnk_in mode input < lnk ppm ! 0 \<or> lnk ppm ! (length (lnk ppm) - 1) < lnk_in mode input)
        \<and> primordial_spec_type ppm \<noteq> analytic_Pk \<longrightarrow>
        primordial_spectrum_at_k ppm spl index_mode mode input output
          = (Some (K_out_of_range (exp (lnk_in mode input)) (exp (lnk ppm ! 0))
                     (exp (lnk ppm ! (length (lnk ppm) - 1)))), output))
   \<and> ((lnk_in mode input < lnk ppm ! 0 \<or> lnk ppm ! (length (lnk ppm) - 1) < lnk_in mode input)
        \<and> primordial_spec_type ppm = analytic_Pk \<longrightarrow>
        (\<exists>D. (\<forall>i1 i2. i1 \<le> i2 \<and> i2 < ic_size ppm index_mode \<longrightarrow>
                 D (index_symmetric_matrix i1 i2 (ic_size ppm index_mode))
                 = (let j = index_symmetric_matrix i1 i2 (ic_size ppm index_mode);
                        k = exp (lnk_in mode input)
                    in if is_non_zero ppm index_mode j
                       then amplitude ppm index_mode j
                            * exp ((tilt ppm index_mode j - 1) * ln (k / k_pivot ppm)
                                   + 0.5 * running ppm index_mode j * (ln (k / k_pivot ppm))^2)
                       else 0))
            \<and> (mode = linear \<longrightarrow> exp (lnk_in mode input) = input)
            \<and> primordial_spectrum_at_k ppm spl index_mode mode input output
                = (None, if mode = logarithmic then direct_to_logarithmic ppm index_mode D
                         else D)))"
proof (intro conjI impI)
  assume inside: "lnk ppm ! 0 \<le> lnk_in mode input
                  \<and> lnk_in mode input \<le> lnk ppm ! (length (lnk ppm) - 1)"
  obtain m out where sp: "spl (lnk ppm) (lnpk ppm index_mode) (ddlnpk ppm index_mode)
      (ic_ic_size ppm index_mode) (lnk_in mode input) output = (m, out)"
    by (cases "spl (lnk ppm) (lnpk ppm index_mode) (ddlnpk ppm index_mode)
      (ic_ic_size ppm index_mode) (lnk_in mode input) output") blast
  have "primordial_spectrum_at_k ppm spl index_mode mode input output
      = (map_option External m,
         if m = None \<and> mode = linear then interpolated_to_linear ppm index_mode out else out)"
    using inside assms(2,3) sp
    by (cases m) (auto simp: primordial_spectrum_at_k_def lnk_in_def Let_def)
  with sp show "\<exists>m out. spl (lnk ppm) (lnpk ppm index_mode) (ddlnpk ppm index_mode)
                     (ic_ic_size ppm index_mode) (lnk_in mode input) output = (m, out)
           \<and> primordial_spectrum_at_k ppm spl index_mode mode input output
               = (map_option External m,
                  if m = None \<and> mode = linear then interpolated_to_linear ppm index_mode out
                  else out)"
    by blast
next
  assume "(lnk_in mode input < lnk ppm ! 0 \<or> lnk ppm ! (length (lnk ppm) - 1) < lnk_in mode input)
        \<and> primordial_spec_type ppm \<noteq> analytic_Pk"
  then show "primordial_spectrum_at_k ppm spl index_mode mode input output
          = (Some (K_out_of_range (exp (lnk_in mode input)) (exp (lnk ppm ! 0))
                     (exp (lnk ppm ! (length (lnk ppm) - 1)))), output)"
    using assms(2,3) by (auto simp: primordial_spectrum_at_k_def lnk_in_def Let_def)
next
  assume outside: "(lnk_in mode input < lnk ppm ! 0
                    \<or> lnk ppm ! (length (lnk ppm) - 1) < lnk_in mode input)
        \<and> primordial_spec_type ppm = analytic_Pk"
  let ?D = "direct_computation ppm index_mode (lnk_in mode input) output"
  have entries: "\<forall>i1 i2. i1 \<le> i2 \<and> i2 < ic_size ppm index_mode \<longrightarrow>
                 ?D (index_symmetric_matrix i1 i2 (ic_size ppm index_mode))
                 = (let j = index_symmetric_matrix i1 i2 (ic_size ppm index_mode);
                        k = exp (lnk_in mode input)
                    in if is_non_zero ppm index_mode j
                       then amplitude ppm index_mode j
                            * exp ((tilt ppm index_mode j - 1) * ln (k / k_pivot ppm)
                                   + 0.5 * running ppm index_mode j * (ln (k / k_pivot ppm))^2)
                       else 0)"
    by (simp add: direct_computation_pair primordial_analytic_spectrum_def Let_def)
  have lin: "mode = linear \<longrightarrow> exp (lnk_in mode input) = input"
    using assms(3) by (simp add: lnk_in_def)
  have res: "primordial_spectrum_at_k ppm spl index_mode mode input output
                = (None, if mode = logarithmic then direct_to_logarithmic ppm index_mode ?D
                         else ?D)"
    using outside assms(2,3) by (auto simp: primordial_spectrum_at_k_def lnk_in_def Let_def)
  from entries lin res
  show "\<exists>D. (\<forall>i1 i2. i1 \<le> i2 \<and> i2 < ic_size ppm index_mode \<longrightarrow>
                 D (index_symmetric_matrix i1 i2 (ic_size ppm index_mode))
                 = (let j = index_symmetric_matrix i1 i2 (ic_size ppm index_mode);
                        k = exp (lnk_in mode input)
                    in if is_non_zero ppm index_mode j
                       then amplitude ppm index_mode j
                            * exp ((tilt ppm index_mode j - 1) * ln (k / k_pivot ppm)
                                   + 0.5 * running ppm index_mode j * (ln (k / k_pivot ppm))^2)
                       else 0))
            \<and> (mode = linear \<longrightarrow> exp (lnk_in mode input) = input)
            \<and> primordial_spectrum_at_k ppm spl index_mode mode input output
                = (None, if mode = logarithmic then direct_to_logarithmic ppm index_mode D
                         else D)"
    by blast
qed

text \<open>
  C10. In linear mode an input \<open>k \<le> 0\<close> makes the function return the failure
  \<open>K_not_positive\<close> with the output array exactly as the caller passed it, whatever
  the interpolation routine is (it is not reached). In logarithmic mode that failure is
  never returned, whatever the sign of the input.
\<close>

theorem spectrum_at_k_linear_rejects_nonpositive_k:
  "(input \<le> 0 \<longrightarrow>
      primordial_spectrum_at_k ppm spl index_mode linear input output
        = (Some (K_not_positive input), output))
   \<and> (\<forall>x. fst (primordial_spectrum_at_k ppm spl index_mode logarithmic input output)
            \<noteq> Some (K_not_positive x))"
  by (auto simp: primordial_spectrum_at_k_def Let_def split: prod.splits option.splits)

lemma ppm_fixture_simps:
  "lnk ppm_fixture = [0, 1]" "primordial_spec_type ppm_fixture = analytic_Pk"
  "ic_size ppm_fixture m = 2" "ic_ic_size ppm_fixture m = 3" "k_pivot ppm_fixture = 1"
  "is_non_zero ppm_fixture m i = (i \<noteq> 1)" "amplitude ppm_fixture m i = (if i = 1 then 0 else 2)"
  "tilt ppm_fixture m i = (if i = 1 then 0 else 2)" "running ppm_fixture m i = 0"
  "lnpk ppm_fixture m i = 5" "ddlnpk ppm_fixture m i = 0"
  by (simp_all add: ppm_fixture_def)

theorem spectrum_at_k_range_dispatch_witness:
  "lnk ppm_fixture \<noteq> []
   \<and> primordial_spectrum_at_k ppm_fixture first_row_interpolation 0 logarithmic 1 (\<lambda>_. 0)
       = (None, (\<lambda>i. if i < 3 then 5 else 0))
   \<and> primordial_spectrum_at_k (ppm_fixture\<lparr>primordial_spec_type := inflation_V\<rparr>)
         first_row_interpolation 0 logarithmic 2 (\<lambda>_. 0)
       = (Some (K_out_of_range (exp 2) (exp 0) (exp 1)), (\<lambda>_. 0))
   \<and> fst (primordial_spectrum_at_k ppm_fixture first_row_interpolation 0 linear (exp 2) (\<lambda>_. 0)) = None
   \<and> snd (primordial_spectrum_at_k ppm_fixture first_row_interpolation 0 linear (exp 2) (\<lambda>_. 0)) 0
       = 2 * exp 2"
proof -
  have ne: "lnk ppm_fixture \<noteq> []" by (simp add: ppm_fixture_simps)
  have ne': "lnk (ppm_fixture\<lparr>primordial_spec_type := inflation_V\<rparr>) \<noteq> []"
    by (simp add: ppm_fixture_simps)
  have log: "logarithmic = linear \<longrightarrow> (0::real) < x" for x by simp
  have lin: "linear = linear \<longrightarrow> (0::real) < exp 2" by simp
  have a: "primordial_spectrum_at_k ppm_fixture first_row_interpolation 0 logarithmic 1 (\<lambda>_. 0)
       = (None, (\<lambda>i. if i < 3 then 5 else 0))"
    using spectrum_at_k_range_dispatch [OF ne log, of 1 first_row_interpolation 0 "\<lambda>_. 0", THEN conjunct1]
    by (simp add: ppm_fixture_simps first_row_interpolation_def cong: if_cong)
  have b: "primordial_spectrum_at_k (ppm_fixture\<lparr>primordial_spec_type := inflation_V\<rparr>)
         first_row_interpolation 0 logarithmic 2 (\<lambda>_. 0)
       = (Some (K_out_of_range (exp 2) (exp 0) (exp 1)), (\<lambda>_. 0))"
    using spectrum_at_k_range_dispatch [OF ne' log, of 2 first_row_interpolation 0 "\<lambda>_. 0",
        THEN conjunct2, THEN conjunct1]
    by (simp add: ppm_fixture_simps)
  have pre: "((if linear = linear then ln (exp 2) else exp 2) < lnk ppm_fixture ! 0
               \<or> lnk ppm_fixture ! (length (lnk ppm_fixture) - 1)
                   < (if linear = linear then ln (exp 2) else exp 2))
             \<and> primordial_spec_type ppm_fixture = analytic_Pk"
    by (simp add: ppm_fixture_simps)
  note t = spectrum_at_k_range_dispatch [OF ne lin, of first_row_interpolation 0 "\<lambda>_. 0",
        THEN conjunct2, THEN conjunct2, THEN mp, OF pre]
  then obtain D where
    D: "\<And>i1 i2. i1 \<le> i2 \<and> i2 < ic_size ppm_fixture 0 \<Longrightarrow>
           D (index_symmetric_matrix i1 i2 (ic_size ppm_fixture 0))
           = (let j = index_symmetric_matrix i1 i2 (ic_size ppm_fixture 0);
                  k = exp (if linear = linear then ln (exp 2) else exp 2)
              in if is_non_zero ppm_fixture 0 j
                 then amplitude ppm_fixture 0 j
                      * exp ((tilt ppm_fixture 0 j - 1) * ln (k / k_pivot ppm_fixture)
                             + 0.5 * running ppm_fixture 0 j * (ln (k / k_pivot ppm_fixture))^2)
                 else 0)"
    and res: "primordial_spectrum_at_k ppm_fixture first_row_interpolation 0 linear (exp 2) (\<lambda>_. 0)
       = (None, if linear = logarithmic then direct_to_logarithmic ppm_fixture 0 D else D)"
    by blast
  have "D (index_symmetric_matrix 0 0 (ic_size ppm_fixture 0)) = 2 * exp 2"
    by (subst D) (simp_all add: ppm_fixture_simps index_symmetric_matrix_def Let_def)
  then have c: "snd (primordial_spectrum_at_k ppm_fixture first_row_interpolation 0 linear (exp 2) (\<lambda>_. 0)) 0
       = 2 * exp 2"
    by (simp add: res index_symmetric_matrix_def ppm_fixture_simps)
  from ne a b c res show ?thesis by simp
qed

theorem spectrum_at_k_linear_rejects_nonpositive_k_witness:
  "(- 1 :: real) \<le> 0
   \<and> primordial_spectrum_at_k ppm_fixture first_row_interpolation 0 linear (- 1) (\<lambda>_. 7)
       = (Some (K_not_positive (- 1)), (\<lambda>_. 7))
   \<and> fst (primordial_spectrum_at_k ppm_fixture first_row_interpolation 0 logarithmic (- 1) (\<lambda>_. 7))
       \<noteq> Some (K_not_positive (- 1))
   \<and> fst (primordial_spectrum_at_k ppm_fixture first_row_interpolation 0 logarithmic (- 1) (\<lambda>_. 7))
       = None"
proof -
  have "fst (primordial_spectrum_at_k ppm_fixture first_row_interpolation 0 logarithmic (- 1) (\<lambda>_. 7))
       = None"
    by (simp add: primordial_spectrum_at_k_def ppm_fixture_simps Let_def)
  then show ?thesis
    using spectrum_at_k_linear_rejects_nonpositive_k
      [of "- 1" ppm_fixture first_row_interpolation 0 "\<lambda>_. 7"]
    by simp
qed

subsection \<open>Derived spectral parameters\<close>

lemma spectrum_at_k_into_local_scalar_fields:
  "spectrum_at_k_into_local (ppm\<lparr>A_s := a, n_s := b, alpha_s := c\<rparr>) spl index_mode x v
     = spectrum_at_k_into_local ppm spl index_mode x v"
proof -
  let ?ppm = "ppm\<lparr>A_s := a, n_s := b, alpha_s := c\<rparr>"
  have pas: "primordial_analytic_spectrum ?ppm = primordial_analytic_spectrum ppm"
    by (intro ext) (simp add: primordial_analytic_spectrum_def)
  have dc: "direct_computation ?ppm = direct_computation ppm"
    by (intro ext) (simp add: direct_computation_def pas cong: if_cong)
  have dl: "direct_to_logarithmic ?ppm = direct_to_logarithmic ppm"
    by (intro ext) (simp add: direct_to_logarithmic_def cong: if_cong)
  have il: "interpolated_to_linear ?ppm = interpolated_to_linear ppm"
    by (intro ext) (simp add: interpolated_to_linear_def cong: if_cong)
  have "primordial_spectrum_at_k ?ppm = primordial_spectrum_at_k ppm"
    by (intro ext) (auto simp add: primordial_spectrum_at_k_def dc dl il Let_def split: prod.splits option.splits)
  then show ?thesis
    by (simp add: spectrum_at_k_into_local_def)
qed

text \<open>
  C9. When the spectrum is not analytic and scalars and tensors are both present, a
  successful run of the last block of \<open>primordial_init\<close> has read the scalar
  log-spectrum at \<open>ln k_pivot\<close>, \<open>ln k_pivot + dlnk\<close> and
  \<open>ln k_pivot - dlnk\<close>, with \<open>dlnk = ln 10 / k_per_decade_primordial\<close>, then the
  tensor log-spectrum at the same three points, and has set
  \<open>A_s = exp lnP_pivot\<close>, \<open>n_s = (lnP_plus - lnP_minus) / (2 dlnk) + 1\<close>,
  \<open>alpha_s = (lnP_plus - 2 lnP_pivot + lnP_minus) / dlnk^2\<close>, and from the tensor
  values \<open>r = exp lnPt_pivot / A_s\<close>, \<open>n_t = (lnPt_plus - lnPt_minus) / (2 dlnk)\<close>
  and \<open>alpha_t = (lnPt_plus - 2 lnPt_pivot + lnPt_minus) / dlnk^2\<close>.
\<close>

theorem spectral_parameters_by_finite_differences:
  assumes "primordial_spec_type ppm \<noteq> analytic_Pk" and "has_scalars ppt" and "has_tensors ppt"
    and "primordial_init_spectral_parameters ppr ppt ppm spl (v_pivot, v_plus, v_minus) = Inr ppm'"
  shows "\<exists>lnpk_pivot lnpk_plus lnpk_minus lnpt_pivot lnpt_plus lnpt_minus dlnk.
      dlnk = ln 10 / k_per_decade_primordial ppr
    \<and> spectrum_at_k_into_local ppm spl (index_md_scalars ppt) (ln (k_pivot ppm)) v_pivot
        = Inr lnpk_pivot
    \<and> spectrum_at_k_into_local ppm spl (index_md_scalars ppt) (ln (k_pivot ppm) + dlnk) v_plus
        = Inr lnpk_plus
    \<and> spectrum_at_k_into_local ppm spl (index_md_scalars ppt) (ln (k_pivot ppm) - dlnk) v_minus
        = Inr lnpk_minus
    \<and> spectrum_at_k_into_local ppm spl (index_md_tensors ppt) (ln (k_pivot ppm)) lnpk_pivot
        = Inr lnpt_pivot
    \<and> spectrum_at_k_into_local ppm spl (index_md_tensors ppt) (ln (k_pivot ppm) + dlnk) lnpk_plus
        = Inr lnpt_plus
    \<and> spectrum_at_k_into_local ppm spl (index_md_tensors ppt) (ln (k_pivot ppm) - dlnk) lnpk_minus
        = Inr lnpt_minus
    \<and> A_s ppm' = exp lnpk_pivot
    \<and> n_s ppm' = (lnpk_plus - lnpk_minus) / (2 * dlnk) + 1
    \<and> alpha_s ppm' = (lnpk_plus - 2 * lnpk_pivot + lnpk_minus) / dlnk^2
    \<and> r ppm' = exp lnpt_pivot / A_s ppm'
    \<and> n_t ppm' = (lnpt_plus - lnpt_minus) / (2 * dlnk)
    \<and> alpha_t ppm' = (lnpt_plus - 2 * lnpt_pivot + lnpt_minus) / dlnk^2"
  using assms
  unfolding primordial_init_spectral_parameters_def Let_def
  by (auto simp: spectrum_at_k_into_local_scalar_fields split: sum.splits)

lemma ppm_inflation_table_simps:
  "lnk ppm_inflation_table = [- 1, 1]" "primordial_spec_type ppm_inflation_table = inflation_V"
  "ic_size ppm_inflation_table m = 1" "ic_ic_size ppm_inflation_table m = 1"
  "k_pivot ppm_inflation_table = 1"
  "lnpk ppm_inflation_table 0 = (\<lambda>i. if i = 0 then 3 else if i = 1 then - 1 / 25 else 1 / 100)"
  "lnpk ppm_inflation_table (Suc 0) = (\<lambda>i. if i = 0 then 1 else if i = 1 then - 1 / 100 else 0)"
  by (simp_all add: ppm_inflation_table_def ppm_fixture_def)

lemma ppr_fixture_dlnk: "ln 10 / k_per_decade_primordial ppr_fixture = 1"
  by (simp add: ppr_fixture_def)

lemma into_local_quadratic:
  assumes "- 1 \<le> x" "x \<le> 1"
  shows "spectrum_at_k_into_local ppm_inflation_table quadratic_interpolation m x v
         = Inr (lnpk ppm_inflation_table m 0 + lnpk ppm_inflation_table m 1 * x
                + lnpk ppm_inflation_table m 2 * x^2)"
  using assms
  by (simp add: spectrum_at_k_into_local_def primordial_spectrum_at_k_def
      quadratic_interpolation_def ppm_inflation_table_simps(1-5))

theorem spectral_parameters_by_finite_differences_witness:
  "primordial_spec_type ppm_inflation_table \<noteq> analytic_Pk
   \<and> has_scalars ppt_fixture \<and> has_tensors ppt_fixture
   \<and> (\<exists>ppm'. primordial_init_spectral_parameters ppr_fixture ppt_fixture ppm_inflation_table
                 quadratic_interpolation (0, 0, 0) = Inr ppm'
         \<and> A_s ppm' = exp 3 \<and> n_s ppm' = 24 / 25 \<and> alpha_s ppm' = 1 / 50
         \<and> r ppm' = exp 1 / exp 3 \<and> n_t ppm' = - 1 / 100 \<and> alpha_t ppm' = 0)"
proof -
  have h1: "primordial_spec_type ppm_inflation_table \<noteq> analytic_Pk"
    by (simp add: ppm_inflation_table_simps)
  have h2: "has_scalars ppt_fixture" and h3: "has_tensors ppt_fixture"
    by (simp_all add: ppt_fixture_def)
  have idx: "index_md_scalars ppt_fixture = 0" "index_md_tensors ppt_fixture = Suc 0"
    by (simp_all add: ppt_fixture_def)
  obtain ppm' where run: "primordial_init_spectral_parameters ppr_fixture ppt_fixture
      ppm_inflation_table quadratic_interpolation (0, 0, 0) = Inr ppm'"
    by (simp add: primordial_init_spectral_parameters_def h1 h2 h3 ppr_fixture_dlnk idx
        into_local_quadratic spectrum_at_k_into_local_scalar_fields
        ppm_inflation_table_simps(5))
  have "\<exists>pp pm tp tm :: real. pp * 100 = 297 \<and> pm * 20 = 61 \<and> tp * 100 = 99 \<and> tm * 100 = 101
          \<and> A_s ppm' = exp 3 \<and> n_s ppm' = (pp - pm) / 2 + 1 \<and> alpha_s ppm' = pp - 6 + pm
          \<and> r ppm' = exp 1 / A_s ppm' \<and> n_t ppm' * 2 = tp - tm \<and> alpha_t ppm' = tp - 2 + tm"
    using spectral_parameters_by_finite_differences [OF h1 h2 h3 run]
    unfolding ppr_fixture_dlnk idx
    by (simp add: into_local_quadratic ppm_inflation_table_simps)
  then obtain pp pm tp tm :: real where
    v: "pp * 100 = 297" "pm * 20 = 61" "tp * 100 = 99" "tm * 100 = 101"
    and w: "A_s ppm' = exp 3" "n_s ppm' = (pp - pm) / 2 + 1" "alpha_s ppm' = pp - 6 + pm"
    "r ppm' = exp 1 / A_s ppm'" "n_t ppm' * 2 = tp - tm" "alpha_t ppm' = tp - 2 + tm"
    by (elim exE conjE)
  from v have "pp = 297 / 100" "pm = 61 / 20" "tp = 99 / 100" "tm = 101 / 100"
    by simp_all
  with w have "A_s ppm' = exp 3 \<and> n_s ppm' = 24 / 25 \<and> alpha_s ppm' = 1 / 50
         \<and> r ppm' = exp 1 / exp 3 \<and> n_t ppm' = - 1 / 100 \<and> alpha_t ppm' = 0"
    by simp
  with h1 h2 h3 run show ?thesis by blast
qed

subsection \<open>Background evolver: the last extrapolation\<close>

lemma ppm_steep_potential:
  "primordial_inflation_potential ppm_steep (Num phi)
     = (Num (3 / (8 * pi) - 1 / 32 - 51 / 100 * phi), Num (- 51 / 100), Num 0)"
  by (simp add: primordial_inflation_potential_def ppm_steep_def ppm_unit_hubble_def ppm_fixture_def)

lemma bg_vec_slots:
  "bg_vec a phi dphi index_in_a = a" "bg_vec a phi dphi index_in_phi = phi"
  "bg_vec a phi dphi index_in_dphi = dphi"
  by (simp_all add: bg_vec_def index_in_defs)

lemma euler_integrator_simps:
  "initialize_generic_integrator euler_integrator N = Inr N"
  "cleanup_generic_integrator euler_integrator w = Inr ()"
  by (simp_all add: euler_integrator_def)

lemma steep_aH:
  "sqrt (8 * pi * (1 / 32 + (3 / (8 * pi) - 1 / 32)) / 3) = 1"
proof -
  have "8 * pi * (1 / 32 + (3 / (8 * pi) - 1 / 32)) / 3 = 1" by (simp add: field_simps)
  then show ?thesis by simp
qed

lemma derivs_ppm_steep:
  "primordial_inflation_derivs ppm_steep in_bg_size (Num 0) tau
     (bg_vec (Num 1) (Num 0) (Num (1 / 4))) dy index_in_a = Num 1"
  "primordial_inflation_derivs ppm_steep in_bg_size (Num 0) tau
     (bg_vec (Num 1) (Num 0) (Num (1 / 4))) dy index_in_phi = Num (1 / 4)"
  "primordial_inflation_derivs ppm_steep in_bg_size (Num 0) tau
     (bg_vec (Num 1) (Num 0) (Num (1 / 4))) dy index_in_dphi = Num (1 / 100)"
  unfolding primordial_inflation_derivs_def bg_vec_slots
  by (simp_all add: ppm_steep_potential Let_def index_in_defs steep_aH)

lemma check_ppm_steep:
  "primordial_inflation_check_potential ppm_steep (Num 0) = Inr ()"
  "primordial_inflation_check_potential ppm_steep (Num (1 / 1000)) = Inr ()"
  "primordial_inflation_check_potential ppm_steep (Num (1 / 40)) = Inr ()"
  using pi_less_4 pi_gt_zero
  by (simp_all add: primordial_inflation_check_potential_def ppm_steep_potential field_simps)

text \<open>
  C1. The statements after the stepping loop of \<open>primordial_inflation_evolve_background\<close>
  compute \<open>dtau = (phi_stop - y[phi]) / dy[dphi]\<close>, dividing the remaining field
  distance by the derivative of the field velocity, and then advance the field by
  \<open>dy[phi] * dtau\<close>. The field lands on \<open>phi_stop\<close> only when \<open>dy[phi] = dy[dphi]\<close>.
  Here the potential is positive with a negative slope at every field value involved, the
  run starts at field 0 with velocity 1/4 and is asked to stop at \<open>phi_stop = 1/1000\<close>;
  the stepping loop is not entered (its first step of 1/200 would overshoot) and the
  routine returns with the field at 1/40, which is 24 times the integration tolerance
  1/1000 away from the requested value, and with the scale factor at 11/10.
\<close>

theorem evolve_background_misses_phi_stop:
  "\<exists>y' dy'. primordial_inflation_evolve_background ppm_steep ppr_fixture euler_integrator
               (bg_vec 1 0 (1 / 4)) (\<lambda>_. 0) (1 / 1000) = Some (Inr (y', dy'))
     \<and> y' index_in_phi = 1 / 40 \<and> y' index_in_a = 11 / 10 \<and> y' index_in_dphi = 1 / 4 + 1 / 1000
     \<and> primordial_inflation_check_potential ppm_steep 0 = Inr ()
     \<and> primordial_inflation_check_potential ppm_steep (1 / 1000) = Inr ()
     \<and> primordial_inflation_check_potential ppm_steep (1 / 40) = Inr ()"
proof -
  let ?y = "bg_vec (Num 1) (Num 0) (Num (1 / 4))"
  let ?dy = "primordial_inflation_derivs ppm_steep in_bg_size (Num 0) (Num 0) ?y (\<lambda>_. Num 0)"
  let ?s = "\<lparr>bg_y = ?y, bg_dy = ?dy, bg_tau_end = Num 0, bg_dtau = Num (1 / 200),
       bg_epsilon = primordial_inflation_get_epsilon ppm_steep (Num (1 / 4)), bg_gi = in_bg_size\<rparr>"
  have dtau: "bg_stepsize_dtau ppr_fixture ?y ?dy = Num (1 / 200)"
    unfolding bg_stepsize_dtau_def Let_def derivs_ppm_steep bg_vec_slots
    by (simp add: ppr_fixture_def)
  have loop: "evolve_background_loop ppm_steep ppr_fixture euler_integrator (Num (1 / 1000)) ?s
      = Some (Inr ?s)"
    by (subst evolve_background_loop.simps) (simp add: bg_vec_slots)
  have run: "primordial_inflation_evolve_background ppm_steep ppr_fixture euler_integrator
               ?y (\<lambda>_. Num 0) (Num (1 / 1000))
     = Some (Inr (evolve_background_extrapolate ppm_steep (Num (1 / 1000)) ?s))"
    unfolding primordial_inflation_evolve_background_def Let_def euler_integrator_simps sum.case
      zero_double dtau bg_vec_slots loop option.case
    by simp
  have ex: "evolve_background_extrapolate ppm_steep (Num (1 / 1000)) ?s
       = (?y(index_in_a := Num (11 / 10), index_in_phi := Num (1 / 40),
             index_in_dphi := Num (251 / 1000)),
          primordial_inflation_derivs ppm_steep in_bg_size (Num 0) (Num 0) ?y ?dy)"
    unfolding evolve_background_extrapolate_def Let_def bg_loop.simps zero_double
      derivs_ppm_steep
    by (simp add: bg_vec_def index_in_defs)
  have "\<exists>y' dy'. primordial_inflation_evolve_background ppm_steep ppr_fixture euler_integrator
               ?y (\<lambda>_. Num 0) (Num (1 / 1000)) = Some (Inr (y', dy'))
     \<and> y' index_in_phi = Num (1 / 40) \<and> y' index_in_a = Num (11 / 10)
     \<and> y' index_in_dphi = Num (251 / 1000)"
    unfolding run ex by (simp add: index_in_defs)
  then show ?thesis using check_ppm_steep by simp
qed

subsection \<open>Background evolver: the slow-roll test\<close>

lemma prescribed_integrator_simps:
  "initialize_generic_integrator (prescribed_integrator tgt) N = Inr N"
  "cleanup_generic_integrator (prescribed_integrator tgt) w = Inr ()"
  "generic_integrator (prescribed_integrator tgt) f tau_start tau_end y tol minvar N = Inr (tgt N, N)"
  by (simp_all add: prescribed_integrator_def)

lemma ppm_fixture_potential:
  "primordial_inflation_potential ppm_fixture (Num phi) = (Num (1 - phi), Num (- 1), Num 0)"
  by (simp add: primordial_inflation_potential_def ppm_fixture_def)

lemma ppm_fixture_epsilon:
  "x \<noteq> 1 \<Longrightarrow> primordial_inflation_get_epsilon ppm_fixture (Num x)
     = Num (1 / 16 / pi * (- 1 / (1 - x))^2)"
  by (simp add: primordial_inflation_get_epsilon_def ppm_fixture_potential)

lemma epsilon_values:
  "primordial_inflation_get_epsilon ppm_fixture (Num 0) \<le> Num 1"
  "primordial_inflation_get_epsilon ppm_fixture (Num (1 / 100)) \<le> Num 1"
  "primordial_inflation_get_epsilon ppm_fixture (Num (1 / 10)) \<le> Num 1"
  "primordial_inflation_get_epsilon ppm_fixture (Num (1 / 5)) \<le> Num 1"
  "primordial_inflation_get_epsilon ppm_fixture (Num (1 / 2)) \<le> Num 1"
  "Num 1 < primordial_inflation_get_epsilon ppm_fixture (Num (9 / 10))"
  "\<not> Num 1 < primordial_inflation_get_epsilon ppm_fixture (Num (1 / 5))"
  using pi_ge_two pi_less_4
  by (simp_all add: ppm_fixture_epsilon power2_eq_square field_simps)

text \<open>
  C2. In the stepping loop of \<open>primordial_inflation_evolve_background\<close> the slow-roll
  parameter is computed by \<open>primordial_inflation_get_epsilon\<close> on \<open>y[index_in_dphi]\<close>,
  the field velocity, so the potential is evaluated at the velocity and not at the field
  value. Two iterations with the potential \<open>1 - phi\<close> show both directions. In the
  first the field goes from 0 to 1/100, where the slow-roll parameter of the field value
  stays below 1, and the iteration fails with the crossing error because the velocity goes
  from 1/2 to 9/10. In the second the field goes from 1/2 to 9/10, where the slow-roll
  parameter of the field value crosses from below 1 to above 1, and the iteration does not
  fail because the velocity goes from 1/10 to 1/5.
\<close>

theorem epsilon_test_reads_field_velocity:
  "evolve_background_step ppm_fixture ppr_fixture
      (prescribed_integrator (\<lambda>_. bg_vec (11 / 10) (1 / 100) (9 / 10)))
      ((bg_loop_at (bg_vec 1 0 (1 / 2)))
         \<lparr>bg_epsilon := primordial_inflation_get_epsilon ppm_fixture (1 / 2)\<rparr>)
     = Inl (Epsilon_crossing (9 / 10))
   \<and> primordial_inflation_get_epsilon ppm_fixture 0 \<le> 1
   \<and> primordial_inflation_get_epsilon ppm_fixture (1 / 100) \<le> 1
   \<and> \<not> isl (evolve_background_step ppm_fixture ppr_fixture
      (prescribed_integrator (\<lambda>_. bg_vec (11 / 10) (9 / 10) (1 / 5)))
      ((bg_loop_at (bg_vec 1 (1 / 2) (1 / 10)))
         \<lparr>bg_epsilon := primordial_inflation_get_epsilon ppm_fixture (1 / 10)\<rparr>))
   \<and> primordial_inflation_get_epsilon ppm_fixture (1 / 2) \<le> 1
   \<and> primordial_inflation_get_epsilon ppm_fixture (9 / 10) > 1"
proof -
  have chk: "primordial_inflation_check_potential ppm_fixture (Num 0) = Inr ()"
    "primordial_inflation_check_potential ppm_fixture (Num (1 / 2)) = Inr ()"
    by (simp_all add: primordial_inflation_check_potential_def ppm_fixture_potential)
  have a: "evolve_background_step ppm_fixture ppr_fixture
      (prescribed_integrator (\<lambda>_. bg_vec (Num (11 / 10)) (Num (1 / 100)) (Num (9 / 10))))
      ((bg_loop_at (bg_vec (Num 1) (Num 0) (Num (1 / 2))))
         \<lparr>bg_epsilon := primordial_inflation_get_epsilon ppm_fixture (Num (1 / 2))\<rparr>)
     = Inl (Epsilon_crossing (Num (9 / 10)))"
    unfolding evolve_background_step_def Let_def
    using epsilon_values
    by (simp add: bg_loop_at_def bg_vec_slots chk prescribed_integrator_simps)
  have b: "\<not> isl (evolve_background_step ppm_fixture ppr_fixture
      (prescribed_integrator (\<lambda>_. bg_vec (Num (11 / 10)) (Num (9 / 10)) (Num (1 / 5))))
      ((bg_loop_at (bg_vec (Num 1) (Num (1 / 2)) (Num (1 / 10))))
         \<lparr>bg_epsilon := primordial_inflation_get_epsilon ppm_fixture (Num (1 / 10))\<rparr>))"
    unfolding evolve_background_step_def Let_def
    using epsilon_values
    by (simp add: bg_loop_at_def bg_vec_slots chk prescribed_integrator_simps)
  from a b epsilon_values show ?thesis by simp
qed

subsection \<open>Attractor finder\<close>

lemma ppm_attractor_potential:
  "primordial_inflation_potential ppm_attractor (Num phi)
     = (Num (3 / (8 * pi) - phi * (3 / (8 * pi))), Num (- 3 / (8 * pi)), Num 0)"
  by (simp add: primordial_inflation_potential_def ppm_attractor_def ppm_fixture_def)

lemma inv_16_pi_le: "1 / (16 * pi) \<le> 1 / 32"
  using pi_ge_two by (simp add: field_simps)

lemma trial_velocity_bounds:
  assumes "0 \<le> p" "p \<le> 1 / (16 * pi)"
  shows "1 / (8 * pi) \<le> trial_velocity p" "trial_velocity p \<le> 4 / (31 * pi)"
proof -
  have p: "p \<le> 1 / 32" using assms(2) inv_16_pi_le by linarith
  have s1: "sqrt (1 - p) \<le> 1" using assms(1) by simp
  have "(31 / 32)\<^sup>2 \<le> 1 - p" using p by (simp add: power2_eq_square)
  then have s2: "31 / 32 \<le> sqrt (1 - p)" by (rule real_le_rsqrt)
  have s0: "0 < sqrt (1 - p)" using s2 by linarith
  have c: "0 < 1 / (8 * pi)" by simp
  have "1 / (8 * pi) / 1 \<le> 1 / (8 * pi) / sqrt (1 - p)"
    using s0 s1 c by (intro divide_left_mono) simp_all
  then show "1 / (8 * pi) \<le> trial_velocity p" by (simp add: trial_velocity_def)
  have "1 / (8 * pi) / sqrt (1 - p) \<le> 1 / (8 * pi) / (31 / 32)"
    using s0 s2 c by (intro divide_left_mono) simp_all
  then show "trial_velocity p \<le> 4 / (31 * pi)" by (simp add: trial_velocity_def)
qed

lemma trial_aH_bounds:
  assumes "0 \<le> p" "p \<le> 1 / (16 * pi)"
  shows "31 / 32 \<le> trial_aH p" "trial_aH p \<le> 101 / 100"
proof -
  let ?v = "trial_velocity p"
  let ?E = "8 * pi / 3 * (0.5 * ?v * ?v + 1 * 1 * (3 / (8 * pi) - p * (3 / (8 * pi))))"
  have p: "p \<le> 1 / 32" using assms(2) inv_16_pi_le by linarith
  note v = trial_velocity_bounds [OF assms]
  have v0: "0 \<le> ?v" using v(1) pi_gt_zero by (meson divide_nonneg_pos dual_order.trans mult_pos_pos zero_le_one zero_less_numeral)
  have E: "?E = 4 * pi / 3 * (?v * ?v) + (1 - p)"
    by (simp add: field_simps)
  have vv: "?v * ?v \<le> 4 / (31 * pi) * (4 / (31 * pi))"
    using v(2) v0 by (intro mult_mono) simp_all
  have "4 * pi / 3 * (?v * ?v) \<le> 4 * pi / 3 * (4 / (31 * pi) * (4 / (31 * pi)))"
    using vv by (intro mult_left_mono) simp_all
  also have "\<dots> = 64 / (2883 * pi)" by (simp add: field_simps)
  also have "\<dots> \<le> 32 / 2883" using pi_ge_two by (simp add: field_simps)
  finally have k: "4 * pi / 3 * (?v * ?v) \<le> 32 / 2883" .
  have k0: "0 \<le> 4 * pi / 3 * (?v * ?v)" by simp
  have "(31 / 32)\<^sup>2 \<le> (31 / 32 :: real)" by (simp add: power2_eq_square)
  then have "(31 / 32)\<^sup>2 \<le> ?E" unfolding E using p k0 by linarith
  then show "31 / 32 \<le> trial_aH p" unfolding trial_aH_def by (rule real_le_rsqrt)
  have "1 + 32 / 2883 \<le> (101 / 100 :: real)\<^sup>2" by (simp add: power2_eq_square)
  then have "?E \<le> (101 / 100)\<^sup>2" unfolding E using assms(1) k by linarith
  then show "trial_aH p \<le> 101 / 100" unfolding trial_aH_def by (intro real_le_lsqrt) simp_all
qed

lemma trial_slope_bounds:
  assumes "0 \<le> p" "p \<le> 1 / (16 * pi)"
  shows "1 / (9 * pi) \<le> 3 / (8 * pi) - 2 * trial_aH p * trial_velocity p"
    "3 / (8 * pi) - 2 * trial_aH p * trial_velocity p \<le> 17 / (128 * pi)"
proof -
  note v = trial_velocity_bounds [OF assms]
  note h = trial_aH_bounds [OF assms]
  have v0: "0 \<le> trial_velocity p" using v(1) by (meson divide_nonneg_pos dual_order.trans mult_pos_pos pi_gt_zero zero_le_one zero_less_numeral)
  have "trial_aH p * trial_velocity p \<le> 101 / 100 * (4 / (31 * pi))"
    using v h v0 by (intro mult_mono) simp_all
  moreover have "3 / (8 * pi) - 2 * (101 / 100 * (4 / (31 * pi))) \<ge> 1 / (9 * pi)"
    by (simp add: field_simps)
  ultimately show "1 / (9 * pi) \<le> 3 / (8 * pi) - 2 * trial_aH p * trial_velocity p"
    by linarith
  have "31 / 32 * (1 / (8 * pi)) \<le> trial_aH p * trial_velocity p"
    using v h by (intro mult_mono) simp_all
  moreover have "3 / (8 * pi) - 2 * (31 / 32 * (1 / (8 * pi))) = 17 / (128 * pi)"
    by (simp add: field_simps)
  ultimately show "3 / (8 * pi) - 2 * trial_aH p * trial_velocity p \<le> 17 / (128 * pi)"
    by linarith
qed

lemma trial_slope_eq: "trial_slope p = 3 / (8 * pi) - 2 * trial_aH p * trial_velocity p"
  by (simp add: trial_slope_def)

lemma trial_velocity_0: "trial_velocity 0 = 1 / (8 * pi)"
  by (simp add: trial_velocity_def)

lemma trial_velocity_m99: "trial_velocity (- 99) = 1 / (80 * pi)"
proof -
  have "sqrt (1 - (- 99)) = sqrt (10\<^sup>2)" by (simp add: power2_eq_square)
  then have "sqrt (1 - (- 99)) = 10" by (simp only: real_sqrt_abs abs_numeral)
  then show ?thesis unfolding trial_velocity_def by simp
qed

lemma trial_denominator:
  assumes p: "0 \<le> p" "p \<le> 1 / (16 * pi)"
  shows "31 / 32 * ((1 / (16 * pi) - p) * (128 * pi / 17))
           \<le> trial_aH p * ((1 / (16 * pi) - p) / trial_slope p)"
    "trial_aH p * ((1 / (16 * pi) - p) / trial_slope p)
           \<le> 101 / 100 * ((1 / (16 * pi) - p) * (9 * pi))"
proof -
  note h = trial_aH_bounds [OF p]
  note S = trial_slope_bounds [OF p, folded trial_slope_eq]
  let ?r = "1 / (16 * pi) - p"
  have r: "0 \<le> ?r" using p(2) by simp
  have S0: "0 < trial_slope p"
  proof -
    have "0 < 1 / (9 * pi)" by simp
    then show ?thesis using S(1) by linarith
  qed
  have "?r / (17 / (128 * pi)) \<le> ?r / trial_slope p"
    using r S0 S(2) by (intro divide_left_mono) simp_all
  then have lo: "?r * (128 * pi / 17) \<le> ?r / trial_slope p" by simp
  have "?r / trial_slope p \<le> ?r / (1 / (9 * pi))"
    using r S0 S(1) by (intro divide_left_mono) simp_all
  then have hi: "?r / trial_slope p \<le> ?r * (9 * pi)" by simp
  have q0: "0 \<le> ?r * (128 * pi / 17)" using r by simp
  have q1: "0 \<le> ?r / trial_slope p" using q0 lo by linarith
  show "31 / 32 * (?r * (128 * pi / 17)) \<le> trial_aH p * (?r / trial_slope p)"
    using h(1) lo q0 by (intro mult_mono) simp_all
  have h0: "0 \<le> trial_aH p" using h(1) by linarith
  show "trial_aH p * (?r / trial_slope p) \<le> 101 / 100 * (?r * (9 * pi))"
    using h(2) hi q1 by (intro mult_mono) simp_all
qed

lemma trial_result_0: "1 / (16 * pi) < trial_result 0" "trial_result 0 < 3 / (16 * pi)"
proof -
  have p: "(0::real) \<le> 0" "0 \<le> 1 / (16 * pi)" by simp_all
  note d = trial_denominator [OF p]
  let ?u = "trial_aH 0 * ((1 / (16 * pi) - 0) / trial_slope 0)"
  have "31 / 32 * ((1 / (16 * pi) - 0) * (128 * pi / 17)) = 31 / 68" by simp
  then have lo: "31 / 68 \<le> ?u" using d(1) by simp
  have "101 / 100 * ((1 / (16 * pi) - 0) * (9 * pi)) = 909 / 1600" by simp
  then have hi: "?u \<le> 909 / 1600" using d(2) by simp
  have n: "trial_velocity 0 + (1 / (16 * pi) - 0) = 3 / (16 * pi)"
    unfolding trial_velocity_0 by (simp add: field_simps)
  have T: "trial_result 0 = 3 / (16 * pi) / (1 + ?u)"
    unfolding trial_result_def n by (rule refl)
  have pos: "0 < 1 + ?u" using lo by linarith
  have c: "0 < 1 / (16 * pi)" by simp
  have "1 / (16 * pi) * (1 + ?u) \<le> 1 / (16 * pi) * (1 + 909 / 1600)"
    using hi by (intro mult_left_mono) simp_all
  also have "\<dots> < 3 / (16 * pi)" by (simp add: field_simps)
  finally show "1 / (16 * pi) < trial_result 0"
    unfolding T using pos by (simp only: pos_less_divide_eq)
  have "3 / (16 * pi) * 1 < 3 / (16 * pi) * (1 + ?u)"
    using lo by (intro mult_strict_left_mono) simp_all
  then have "3 / (16 * pi) < 3 / (16 * pi) * (1 + ?u)" by simp
  then show "trial_result 0 < 3 / (16 * pi)"
    unfolding T using pos by (simp only: pos_divide_less_eq)
qed

lemma trial_result_near:
  assumes p: "3 / (50 * pi) \<le> p" "p \<le> 1 / (16 * pi)"
  shows "3 / (25 * pi) \<le> trial_result p" "trial_result p \<le> 33 / (250 * pi)"
proof -
  have "0 < 3 / (50 * pi)" by simp
  then have p0: "0 \<le> p" using p(1) by linarith
  note d = trial_denominator [OF p0 p(2)]
  note v = trial_velocity_bounds [OF p0 p(2)]
  let ?r = "1 / (16 * pi) - p"
  let ?u = "trial_aH p * (?r / trial_slope p)"
  have "1 / (16 * pi) - 3 / (50 * pi) = 1 / (400 * pi)" by (simp add: field_simps)
  then have r: "0 \<le> ?r" "?r \<le> 1 / (400 * pi)" using p by linarith+
  have "0 \<le> 31 / 32 * (?r * (128 * pi / 17))" using r(1) by simp
  then have lo: "0 \<le> ?u" using d(1) by linarith
  have "101 / 100 * (?r * (9 * pi)) \<le> 101 / 100 * (1 / (400 * pi) * (9 * pi))"
    using r(2) by (intro mult_left_mono mult_right_mono) simp_all
  also have "\<dots> = 909 / 40000" by simp
  finally have hi: "?u \<le> 909 / 40000" using d(2) by linarith
  have pos: "0 < 1 + ?u" using lo by linarith
  let ?n = "trial_velocity p + ?r"
  have T: "trial_result p = ?n / (1 + ?u)" unfolding trial_result_def by (rule refl)
  have n1: "1 / (8 * pi) \<le> ?n" using v(1) r(1) by linarith
  have "4 / (31 * pi) + 1 / (400 * pi) \<le> 33 / (250 * pi)" by (simp add: field_simps)
  then have n2: "?n \<le> 33 / (250 * pi)" using v(2) r(2) by linarith
  have c: "0 \<le> 3 / (25 * pi)" by simp
  have "3 / (25 * pi) * (1 + ?u) \<le> 3 / (25 * pi) * (1 + 909 / 40000)"
    using hi c by (intro mult_left_mono) simp_all
  also have "\<dots> \<le> 1 / (8 * pi)" by (simp add: field_simps)
  finally have "3 / (25 * pi) * (1 + ?u) \<le> ?n" using n1 by linarith
  then show "3 / (25 * pi) \<le> trial_result p"
    unfolding T using pos by (simp only: pos_le_divide_eq)
  have c2: "0 \<le> 33 / (250 * pi)" by simp
  have "33 / (250 * pi) * 1 \<le> 33 / (250 * pi) * (1 + ?u)"
    using lo c2 by (intro mult_left_mono) simp_all
  then have "?n \<le> 33 / (250 * pi) * (1 + ?u)" using n2 by linarith
  then show "trial_result p \<le> 33 / (250 * pi)"
    unfolding T using pos by (simp only: pos_divide_le_eq)
qed

lemma ppr_attractor_stepsize: "primordial_inflation_bg_stepsize ppr_attractor = 2"
  by (simp add: ppr_attractor_def)

lemma ppr_attractor_maxit: "primordial_inflation_attractor_maxit ppr_attractor = 10"
  by (simp add: ppr_attractor_def ppr_fixture_def)

lemma trial_radicand:
  assumes "p \<le> 1"
  shows "0 \<le> 8 * pi / 3 * (0.5 * trial_velocity p * trial_velocity p
                                      + 1 * 1 * (3 / (8 * pi) - p * (3 / (8 * pi))))"
proof -
  have "0 \<le> (1 - p) * (3 / (8 * pi))" using assms by simp
  moreover have "(1 - p) * (3 / (8 * pi)) = 3 / (8 * pi) - p * (3 / (8 * pi))"
    by (simp only: left_diff_distrib mult_1)
  ultimately have "0 \<le> 3 / (8 * pi) - p * (3 / (8 * pi))" by simp
  moreover have "0 \<le> 0.5 * trial_velocity p * trial_velocity p" by simp
  ultimately have "0 \<le> 0.5 * trial_velocity p * trial_velocity p
                     + 1 * 1 * (3 / (8 * pi) - p * (3 / (8 * pi)))" by simp
  then show ?thesis by (intro mult_nonneg_nonneg) simp_all
qed

lemma derivs_trial:
  fixes y :: vec
  assumes y: "y index_in_a = Num 1" "y index_in_phi = Num p"
      "y index_in_dphi = Num (trial_velocity p)"
    and p: "p \<le> 1"
  shows "primordial_inflation_derivs ppm_attractor in_bg_size (Num 0) tau y dy index_in_a
           = Num (1 * trial_aH p)"
    "primordial_inflation_derivs ppm_attractor in_bg_size (Num 0) tau y dy index_in_phi
           = Num (trial_velocity p)"
    "primordial_inflation_derivs ppm_attractor in_bg_size (Num 0) tau y dy index_in_dphi
           = Num (trial_slope p)"
proof -
  have d: "primordial_inflation_derivs ppm_attractor in_bg_size (Num 0) tau y dy
      = dy(index_in_a := Num (1 * trial_aH p), index_in_phi := Num (trial_velocity p),
           index_in_dphi := Num (trial_slope p))"
    unfolding primordial_inflation_derivs_def y ppm_attractor_potential prod.case Let_def
    by (simp only: double_arith sqrt_double_Num [OF trial_radicand [OF p]]
          trial_aH_def [symmetric] trial_slope_def [symmetric] if_True simp_thms)
  show "primordial_inflation_derivs ppm_attractor in_bg_size (Num 0) tau y dy index_in_a
           = Num (1 * trial_aH p)"
    "primordial_inflation_derivs ppm_attractor in_bg_size (Num 0) tau y dy index_in_phi
           = Num (trial_velocity p)"
    "primordial_inflation_derivs ppm_attractor in_bg_size (Num 0) tau y dy index_in_dphi
           = Num (trial_slope p)"
    unfolding d by (simp_all add: index_in_defs)
qed

lemma trial_slope_pos:
  assumes p: "0 \<le> p" "p \<le> 1 / (16 * pi)"
  shows "0 < trial_slope p"
proof -
  note D = trial_slope_bounds [OF p, folded trial_slope_eq]
  have "0 < 1 / (9 * pi)" by simp
  then show ?thesis using D(1) by linarith
qed

lemma trial_le_1:
  assumes "p \<le> 1 / (16 * pi)"
  shows "p \<le> 1" "p < 1"
  using assms inv_16_pi_le by linarith+

lemma trial_dtau_value_bound:
  assumes p: "0 \<le> p" "p \<le> 1 / (16 * pi)"
  shows "32 / 17 \<le> trial_dtau_value p"
proof -
  note v = trial_velocity_bounds [OF p]
  note h = trial_aH_bounds [OF p]
  note D = trial_slope_bounds [OF p, folded trial_slope_eq]
  have D0: "0 < trial_slope p" by (rule trial_slope_pos [OF p])
  have "16 / 17 \<le> 1 / (8 * pi) / (17 / (128 * pi))" by (simp add: field_simps)
  also have "\<dots> \<le> 1 / (8 * pi) / trial_slope p"
    using D0 D(2) by (intro divide_left_mono) simp_all
  also have "\<dots> \<le> trial_velocity p / trial_slope p"
    using D0 v(1) by (intro divide_right_mono) simp_all
  finally have q: "16 / 17 \<le> \<bar>trial_velocity p / trial_slope p\<bar>" by linarith
  have h0: "0 < trial_aH p" using h(1) by linarith
  have "1 / (101 / 100) \<le> 1 / (1 * trial_aH p / 1)"
    using h0 h(2) by (simp add: field_simps)
  then have r: "16 / 17 \<le> 1 / (1 * trial_aH p / 1)" by simp
  show ?thesis unfolding trial_dtau_value_def using q r by linarith
qed

lemma trial_dtau:
  fixes y :: vec
  assumes y: "y index_in_a = Num 1" "y index_in_phi = Num p"
      "y index_in_dphi = Num (trial_velocity p)"
    and p: "0 \<le> p" "p \<le> 1 / (16 * pi)"
  shows "bg_stepsize_dtau ppr_attractor y
             (primordial_inflation_derivs ppm_attractor in_bg_size (Num 0) (Num 0) y dy)
         = Num (trial_dtau_value p)"
proof -
  note h = trial_aH_bounds [OF p]
  have a: "1 * trial_aH p / 1 \<noteq> 0" using h(1) by simp
  have s: "trial_slope p \<noteq> 0" using trial_slope_pos [OF p] by simp
  have one: "(1::real) \<noteq> 0" by simp
  show ?thesis
    unfolding bg_stepsize_dtau_def Let_def derivs_trial [OF y trial_le_1(1) [OF p(2)]] y
      trial_dtau_value_def ppr_attractor_stepsize
    by (simp only: double_arith divide_double_Num [OF a] divide_double_Num [OF s]
          divide_double_Num [OF one])
qed

lemma evolve_background_trial:
  fixes y :: vec
  assumes y: "y index_in_a = Num 1" "y index_in_phi = Num p"
      "y index_in_dphi = Num (trial_velocity p)"
    and p: "0 \<le> p" "p \<le> 1 / (16 * pi)"
  shows "\<exists>y' dy'. primordial_inflation_evolve_background ppm_attractor ppr_attractor euler_integrator
            y dy (Num (1 / (16 * pi))) = Some (Inr (y', dy'))
          \<and> y' index_in_dphi / y' index_in_a = Num (trial_result p)"
proof -
  let ?dy = "primordial_inflation_derivs ppm_attractor in_bg_size (Num 0) (Num 0) y dy"
  let ?s = "\<lparr>bg_y = y, bg_dy = ?dy, bg_tau_end = Num 0, bg_dtau = Num (trial_dtau_value p),
       bg_epsilon = primordial_inflation_get_epsilon ppm_attractor (y index_in_dphi),
       bg_gi = in_bg_size\<rparr>"
  note p1 = trial_le_1(1) [OF p(2)]
  note v = trial_velocity_bounds [OF p]
  note h = trial_aH_bounds [OF p]
  have D: "32 / 17 \<le> trial_dtau_value p" by (rule trial_dtau_value_bound [OF p])
  have "1 / (8 * pi) * (32 / 17) \<le> trial_velocity p * trial_dtau_value p"
  proof (intro mult_mono)
    show "1 / (8 * pi) \<le> trial_velocity p" by (rule v(1))
    show "32 / 17 \<le> trial_dtau_value p" by (rule D)
    have "0 < 1 / (8 * pi)" by simp
    then show "0 \<le> trial_velocity p" using v(1) by linarith
    show "0 \<le> (32 / 17 :: real)" by simp
  qed
  moreover have "1 / (16 * pi) < 1 / (8 * pi) * (32 / 17)" by (simp add: field_simps)
  ultimately have t: "\<not> (p \<le> 1 / (16 * pi) - trial_velocity p * trial_dtau_value p)"
    using p(1) by linarith
  have loop: "evolve_background_loop ppm_attractor ppr_attractor euler_integrator
                (Num (1 / (16 * pi))) ?s = Some (Inr ?s)"
    apply (subst evolve_background_loop.simps)
    using t by (simp add: y)
  have run: "primordial_inflation_evolve_background ppm_attractor ppr_attractor euler_integrator
               y dy (Num (1 / (16 * pi)))
     = Some (Inr (evolve_background_extrapolate ppm_attractor (Num (1 / (16 * pi))) ?s))"
    unfolding primordial_inflation_evolve_background_def Let_def euler_integrator_simps sum.case
      zero_double trial_dtau [OF y p] loop option.case
    by simp
  have m: "trial_slope p \<noteq> 0" using trial_slope_pos [OF p] by simp
  let ?dy2 = "primordial_inflation_derivs ppm_attractor in_bg_size (Num 0) (Num 0) y ?dy"
  let ?dtau = "(1 / (16 * pi) - p) / trial_slope p"
  let ?y1 = "y(index_in_a := Num (1 + 1 * trial_aH p * ?dtau))"
  let ?y2 = "?y1(index_in_phi := ?y1 index_in_phi + Num (trial_velocity p * ?dtau))"
  let ?y3 = "?y2(index_in_dphi := ?y2 index_in_dphi + Num (trial_slope p * ?dtau))"
  have e: "evolve_background_extrapolate ppm_attractor (Num (1 / (16 * pi))) ?s = (?y3, ?dy2)"
    unfolding evolve_background_extrapolate_def Let_def bg_loop.simps zero_double
      derivs_trial [OF y p1] y
    by (simp only: double_arith divide_double_Num [OF m])
  have a: "?y3 index_in_a = Num (1 + trial_aH p * ?dtau)"
    by (simp add: index_in_defs)
  have y2: "?y2 index_in_dphi = Num (trial_velocity p)"
    unfolding y(3) [symmetric] by (simp add: index_in_defs)
  have "trial_slope p * ?dtau = 1 / (16 * pi) - p" using m by simp
  then have d: "?y3 index_in_dphi = Num (trial_velocity p + (1 / (16 * pi) - p))"
    unfolding y2 by (simp only: fun_upd_same plus_double.simps)
  have pos: "1 + trial_aH p * ?dtau \<noteq> 0"
  proof -
    have "0 \<le> trial_aH p" using h(1) by linarith
    moreover have "0 \<le> ?dtau" using trial_slope_pos [OF p] p(2) by simp
    ultimately have "0 \<le> trial_aH p * ?dtau" by (rule mult_nonneg_nonneg)
    then show ?thesis by linarith
  qed
  show ?thesis unfolding run e
  proof (intro exI conjI)
    show "Some (Inr (?y3, ?dy2)) = Some (Inr (?y3, ?dy2))" by (rule refl)
    show "?y3 index_in_dphi / ?y3 index_in_a = Num (trial_result p)"
      unfolding a d trial_result_def by (simp only: divide_double_Num [OF pos])
  qed
qed

lemma trial_dphidt:
  assumes "p < 1"
  shows "- Num (- 3 / (8 * pi)) / 3
           / sqrt_double ((8 * Num pi / 3) * Num (3 / (8 * pi) - p * (3 / (8 * pi))))
         = Num (trial_velocity p)"
proof -
  have r: "8 * pi / 3 * (3 / (8 * pi) - p * (3 / (8 * pi))) = 1 - p"
    by (simp add: field_simps)
  have s: "sqrt (1 - p) \<noteq> 0" using assms by simp
  have n: "0 \<le> 1 - p" using assms by simp
  have "- Num (- 3 / (8 * pi)) / 3
           / sqrt_double ((8 * Num pi / 3) * Num (3 / (8 * pi) - p * (3 / (8 * pi))))
        = Num (- (- 3 / (8 * pi)) / 3 / sqrt (1 - p))"
    by (simp only: double_arith r sqrt_double_Num [OF n] divide_double_Num [OF s])
  also have "- (- 3 / (8 * pi)) / 3 / sqrt (1 - p) = trial_velocity p"
    unfolding trial_velocity_def by simp
  finally show ?thesis .
qed

lemma check_ppm_attractor:
  assumes "p < 1"
  shows "primordial_inflation_check_potential ppm_attractor (Num p) = Inr ()"
proof -
  have "0 < (1 - p) * (3 / (8 * pi))" using assms by simp
  moreover have "(1 - p) * (3 / (8 * pi)) = 3 / (8 * pi) - p * (3 / (8 * pi))"
    by (simp only: left_diff_distrib mult_1)
  ultimately have "\<not> 3 / (8 * pi) - p * (3 / (8 * pi)) \<le> 0" by linarith
  then show ?thesis
    unfolding primordial_inflation_check_potential_def ppm_attractor_potential prod.case
    by (simp add: not_le)
qed

lemma find_attractor_step_trial:
  assumes phi: "at_phi s + dV_0 / V_0 / 16 / Num pi = Num p"
    and c: "at_counter s + 1 < 10"
    and p: "0 \<le> p" "p \<le> 1 / (16 * pi)"
  shows "\<exists>s'. find_attractor_step ppm_attractor ppr_attractor euler_integrator (Num (1 / (16 * pi)))
                 precision V_0 dV_0 s = Some (Inr s')
           \<and> at_phi s' = Num p \<and> at_counter s' = at_counter s + 1
           \<and> at_dphidt_0new s' = Num (trial_result p) \<and> at_dphidt_0old s' = at_dphidt_0new s"
proof -
  have p1: "p < 1" by (rule trial_le_1(2) [OF p(2)])
  let ?y = "(at_y s)(index_in_a := Num 1, index_in_phi := Num p,
                      index_in_dphi := Num (1 * trial_velocity p))"
  have y: "?y index_in_a = Num 1" "?y index_in_phi = Num p"
      "?y index_in_dphi = Num (trial_velocity p)"
    by (simp_all add: index_in_defs)
  obtain y' dy' where
    ev: "primordial_inflation_evolve_background ppm_attractor ppr_attractor euler_integrator
            ?y (at_dy s) (Num (1 / (16 * pi))) = Some (Inr (y', dy'))"
    and r: "y' index_in_dphi / y' index_in_a = Num (trial_result p)"
    using evolve_background_trial [OF y p] by blast
  have n: "\<not> (at_counter s + 1 \<ge> 10)" using c by simp
  have "find_attractor_step ppm_attractor ppr_attractor euler_integrator (Num (1 / (16 * pi)))
                 precision V_0 dV_0 s
        = Some (Inr \<lparr>at_phi = Num p, at_counter = at_counter s + 1,
                     at_dphidt_0new = y' index_in_dphi / y' index_in_a,
                     at_dphidt_0old = at_dphidt_0new s, at_y = y', at_dy = dy'\<rparr>)"
    unfolding find_attractor_step_def Let_def ppr_attractor_maxit if_not_P [OF n] phi
      check_ppm_attractor [OF p1] sum.case ppm_attractor_potential prod.case
      trial_dphidt [OF p1] one_double times_double.simps ev option.case
    by (rule refl)
  then show ?thesis using r by simp
qed

lemma find_attractor_loop_enter:
  assumes "\<bar>at_dphidt_0new s / at_dphidt_0old s - 1\<bar> \<ge> precision"
    and "find_attractor_step ppm ppr gi phi_0 precision V_0 dV_0 s = Some (Inr s')"
  shows "find_attractor_loop ppm ppr gi phi_0 precision V_0 dV_0 s
         = find_attractor_loop ppm ppr gi phi_0 precision V_0 dV_0 s'"
  by (subst find_attractor_loop.simps) (simp add: assms del: one_double)

lemma find_attractor_loop_exit:
  assumes "\<not> \<bar>at_dphidt_0new s / at_dphidt_0old s - 1\<bar> \<ge> precision"
  shows "find_attractor_loop ppm ppr gi phi_0 precision V_0 dV_0 s = Some (Inr s)"
  by (subst find_attractor_loop.simps) (simp add: assms del: one_double)

lemma find_attractor_loop_0:
  "\<exists>s. find_attractor_loop ppm_attractor ppr_attractor euler_integrator (Num (1 / (16 * pi)))
          (Num (1 / 2)) (Num (3 / (8 * pi) - 0 * (3 / (8 * pi)))) (Num (- 3 / (8 * pi)))
          \<lparr>at_phi = Num (1 / (16 * pi)), at_counter = 0,
           at_dphidt_0new = Num (trial_velocity 0),
           at_dphidt_0old = Num (trial_velocity 0 / (1 / 2 + 2)), at_y = y, at_dy = dy\<rparr>
        = Some (Inr s) \<and> at_dphidt_0new s = Num (trial_result 0)"
proof -
  let ?V = "Num (3 / (8 * pi) - 0 * (3 / (8 * pi)))"
  let ?dV = "Num (- 3 / (8 * pi))"
  let ?s0 = "\<lparr>at_phi = Num (1 / (16 * pi)), at_counter = 0,
           at_dphidt_0new = Num (trial_velocity 0),
           at_dphidt_0old = Num (trial_velocity 0 / (1 / 2 + 2)), at_y = y, at_dy = dy\<rparr>"
  have phi: "at_phi ?s0 + ?dV / ?V / 16 / Num pi = Num 0" by (simp add: field_simps)
  have c: "at_counter ?s0 + 1 < 10" by simp
  have p: "(0::real) \<le> 0" "0 \<le> 1 / (16 * pi)" by simp_all
  obtain s1 where
    step: "find_attractor_step ppm_attractor ppr_attractor euler_integrator (Num (1 / (16 * pi)))
                 (Num (1 / 2)) ?V ?dV ?s0 = Some (Inr s1)"
    and new: "at_dphidt_0new s1 = Num (trial_result 0)"
    and old: "at_dphidt_0old s1 = at_dphidt_0new ?s0"
    using find_attractor_step_trial [OF phi c p] by blast
  have enter: "\<bar>at_dphidt_0new ?s0 / at_dphidt_0old ?s0 - 1\<bar> \<ge> Num (1 / 2)"
    by (simp add: trial_velocity_0)
  have q: "trial_result 0 / (1 / (8 * pi)) = 8 * pi * trial_result 0" by simp
  have "8 * pi * (1 / (16 * pi)) < 8 * pi * trial_result 0"
    using trial_result_0(1) by (intro mult_strict_left_mono) simp_all
  then have lo: "1 / 2 < 8 * pi * trial_result 0" by simp
  have "8 * pi * trial_result 0 < 8 * pi * (3 / (16 * pi))"
    using trial_result_0(2) by (intro mult_strict_left_mono) simp_all
  then have hi: "8 * pi * trial_result 0 < 3 / 2" by simp
  have nz: "1 / (8 * pi) \<noteq> 0" by simp
  have "\<not> \<bar>trial_result 0 / (1 / (8 * pi)) - 1\<bar> \<ge> 1 / 2"
    unfolding q using lo hi by linarith
  then have exit: "\<not> \<bar>at_dphidt_0new s1 / at_dphidt_0old s1 - 1\<bar> \<ge> Num (1 / 2)"
    unfolding new old attractor_loop.simps trial_velocity_0
    by (simp only: double_arith divide_double_Num [OF nz] simp_thms)
  show ?thesis
    unfolding find_attractor_loop_enter [OF enter step] find_attractor_loop_exit [OF exit]
    using new by simp
qed

lemma find_attractor_loop_m99:
  "\<exists>s. find_attractor_loop ppm_attractor ppr_attractor euler_integrator (Num (1 / (16 * pi)))
          (Num (1 / 2)) (Num (3 / (8 * pi) - (- 99) * (3 / (8 * pi)))) (Num (- 3 / (8 * pi)))
          \<lparr>at_phi = Num (1 / (16 * pi)), at_counter = 0,
           at_dphidt_0new = Num (trial_velocity (- 99)),
           at_dphidt_0old = Num (trial_velocity (- 99) / (1 / 2 + 2)), at_y = y, at_dy = dy\<rparr>
        = Some (Inr s) \<and> at_dphidt_0new s = Num (trial_result (49 / (800 * pi)))"
proof -
  let ?V = "Num (3 / (8 * pi) - (- 99) * (3 / (8 * pi)))"
  let ?dV = "Num (- 3 / (8 * pi))"
  let ?s0 = "\<lparr>at_phi = Num (1 / (16 * pi)), at_counter = 0,
           at_dphidt_0new = Num (trial_velocity (- 99)),
           at_dphidt_0old = Num (trial_velocity (- 99) / (1 / 2 + 2)), at_y = y, at_dy = dy\<rparr>"
  have shift: "?dV / ?V / 16 / Num pi = Num (- 1 / (1600 * pi))" by (simp add: field_simps)
  have phi1: "at_phi ?s0 + ?dV / ?V / 16 / Num pi = Num (99 / (1600 * pi))"
    unfolding shift by (simp add: field_simps)
  have c1: "at_counter ?s0 + 1 < 10" by simp
  have p1: "3 / (50 * pi) \<le> 99 / (1600 * pi)" "99 / (1600 * pi) \<le> 1 / (16 * pi)"
    by (simp_all add: field_simps)
  have p1': "0 \<le> 99 / (1600 * pi)" by simp
  obtain s1 where
    step1: "find_attractor_step ppm_attractor ppr_attractor euler_integrator (Num (1 / (16 * pi)))
                 (Num (1 / 2)) ?V ?dV ?s0 = Some (Inr s1)"
    and phi_s1: "at_phi s1 = Num (99 / (1600 * pi))"
    and counter_s1: "at_counter s1 = at_counter ?s0 + 1"
    and new1: "at_dphidt_0new s1 = Num (trial_result (99 / (1600 * pi)))"
    and old1: "at_dphidt_0old s1 = at_dphidt_0new ?s0"
    using find_attractor_step_trial [OF phi1 c1 p1' p1(2)] by blast
  have phi2: "at_phi s1 + ?dV / ?V / 16 / Num pi = Num (49 / (800 * pi))"
    unfolding shift phi_s1 by (simp add: field_simps)
  have c2: "at_counter s1 + 1 < 10" unfolding counter_s1 by simp
  have p2: "3 / (50 * pi) \<le> 49 / (800 * pi)" "49 / (800 * pi) \<le> 1 / (16 * pi)"
    by (simp_all add: field_simps)
  have p2': "0 \<le> 49 / (800 * pi)" by simp
  obtain s2 where
    step2: "find_attractor_step ppm_attractor ppr_attractor euler_integrator (Num (1 / (16 * pi)))
                 (Num (1 / 2)) ?V ?dV s1 = Some (Inr s2)"
    and new2: "at_dphidt_0new s2 = Num (trial_result (49 / (800 * pi)))"
    and old2: "at_dphidt_0old s2 = at_dphidt_0new s1"
    using find_attractor_step_trial [OF phi2 c2 p2' p2(2)] by blast
  note T1 = trial_result_near [OF p1]
  note T2 = trial_result_near [OF p2]
  have enter0: "\<bar>at_dphidt_0new ?s0 / at_dphidt_0old ?s0 - 1\<bar> \<ge> Num (1 / 2)"
    by (simp add: trial_velocity_m99)
  have q: "trial_result (99 / (1600 * pi)) / (1 / (80 * pi))
           = 80 * pi * trial_result (99 / (1600 * pi))" by simp
  have "80 * pi * (3 / (25 * pi)) \<le> 80 * pi * trial_result (99 / (1600 * pi))"
    using T1(1) by (intro mult_left_mono) simp_all
  then have "48 / 5 \<le> 80 * pi * trial_result (99 / (1600 * pi))" by simp
  then have "\<bar>trial_result (99 / (1600 * pi)) / (1 / (80 * pi)) - 1\<bar> \<ge> 1 / 2"
    unfolding q by linarith
  moreover have nz1: "1 / (80 * pi) \<noteq> 0" by simp
  ultimately have enter1: "\<bar>at_dphidt_0new s1 / at_dphidt_0old s1 - 1\<bar> \<ge> Num (1 / 2)"
    unfolding new1 old1 attractor_loop.simps trial_velocity_m99
    by (simp only: double_arith divide_double_Num [OF nz1] simp_thms)
  have t0: "0 < trial_result (99 / (1600 * pi))"
  proof -
    have "0 < 3 / (25 * pi)" by simp
    then show ?thesis using T1(1) by linarith
  qed
  have "1 / 2 * trial_result (99 / (1600 * pi)) \<le> 1 / 2 * (33 / (250 * pi))"
    using T1(2) by (intro mult_left_mono) simp_all
  also have "\<dots> < 3 / (25 * pi)" by (simp add: field_simps)
  finally have "1 / 2 * trial_result (99 / (1600 * pi)) < trial_result (49 / (800 * pi))"
    using T2(1) by linarith
  then have lo: "1 / 2 < trial_result (49 / (800 * pi)) / trial_result (99 / (1600 * pi))"
    using t0 by (simp only: pos_less_divide_eq)
  have "33 / (250 * pi) < 3 / 2 * (3 / (25 * pi))" by (simp add: field_simps)
  also have "\<dots> \<le> 3 / 2 * trial_result (99 / (1600 * pi))"
    using T1(1) by (intro mult_left_mono) simp_all
  finally have "trial_result (49 / (800 * pi)) < 3 / 2 * trial_result (99 / (1600 * pi))"
    using T2(2) by linarith
  then have hi: "trial_result (49 / (800 * pi)) / trial_result (99 / (1600 * pi)) < 3 / 2"
    using t0 by (simp only: pos_divide_less_eq)
  have nz2: "trial_result (99 / (1600 * pi)) \<noteq> 0" using t0 by simp
  have "\<not> \<bar>trial_result (49 / (800 * pi)) / trial_result (99 / (1600 * pi)) - 1\<bar> \<ge> 1 / 2"
    using lo hi by linarith
  then have exit2: "\<not> \<bar>at_dphidt_0new s2 / at_dphidt_0old s2 - 1\<bar> \<ge> Num (1 / 2)"
    unfolding new2 old2 new1
    by (simp only: double_arith divide_double_Num [OF nz2] simp_thms)
  show ?thesis
    unfolding find_attractor_loop_enter [OF enter0 step1] find_attractor_loop_enter [OF enter1 step2]
      find_attractor_loop_exit [OF exit2]
    using new2 by simp
qed

text \<open>
  C3. \<open>primordial_inflation_find_attractor\<close> evaluates the potential at its local
  variable \<open>phi\<close> before that variable is assigned, and the values \<open>V_0\<close> and
  \<open>dV_0\<close> so obtained set the shift of the trial point in every iteration and enter
  the returned \<open>H_0\<close>. Two calls with the same potential, the same \<open>phi_0 = 1 / (16 pi)\<close>,
  the same precision 1/2 and the same arrays, one finding 0 and the other finding -99 in
  the unassigned variable, both return: the first after one iteration with \<open>H_0 < 4/3\<close>,
  the second after two iterations with \<open>H_0 \<ge> 10\<close>.
\<close>

theorem find_attractor_depends_on_unset_phi:
  "\<exists>H d y1 dy1 H' d' y2 dy2.
     primordial_inflation_find_attractor ppm_attractor ppr_attractor euler_integrator
        0 (Num (1 / (16 * pi))) (1 / 2) (\<lambda>_. 0) (\<lambda>_. 0) = Some (Inr (H, d, y1, dy1))
   \<and> primordial_inflation_find_attractor ppm_attractor ppr_attractor euler_integrator
        (- 99) (Num (1 / (16 * pi))) (1 / 2) (\<lambda>_. 0) (\<lambda>_. 0) = Some (Inr (H', d', y2, dy2))
   \<and> H < 4 / 3 \<and> 10 \<le> H'
   \<and> d = Num (trial_result 0) \<and> d' = Num (trial_result (49 / (800 * pi)))"
proof -
  have l0: "(0::real) < 1" by simp
  have l99: "(- 99::real) < 1" by simp
  have nz: "(1 / 2 + 2 :: real) \<noteq> 0" by simp
  obtain s where
    loop0: "find_attractor_loop ppm_attractor ppr_attractor euler_integrator (Num (1 / (16 * pi)))
          (Num (1 / 2)) (Num (3 / (8 * pi) - 0 * (3 / (8 * pi)))) (Num (- 3 / (8 * pi)))
          \<lparr>at_phi = Num (1 / (16 * pi)), at_counter = 0,
           at_dphidt_0new = Num (trial_velocity 0),
           at_dphidt_0old = Num (trial_velocity 0 / (1 / 2 + 2)),
           at_y = \<lambda>_. Num 0, at_dy = \<lambda>_. Num 0\<rparr>
        = Some (Inr s)"
    and s: "at_dphidt_0new s = Num (trial_result 0)"
    using find_attractor_loop_0 by blast
  obtain s' where
    loop99: "find_attractor_loop ppm_attractor ppr_attractor euler_integrator (Num (1 / (16 * pi)))
          (Num (1 / 2)) (Num (3 / (8 * pi) - (- 99) * (3 / (8 * pi)))) (Num (- 3 / (8 * pi)))
          \<lparr>at_phi = Num (1 / (16 * pi)), at_counter = 0,
           at_dphidt_0new = Num (trial_velocity (- 99)),
           at_dphidt_0old = Num (trial_velocity (- 99) / (1 / 2 + 2)),
           at_y = \<lambda>_. Num 0, at_dy = \<lambda>_. Num 0\<rparr>
        = Some (Inr s')"
    and s': "at_dphidt_0new s' = Num (trial_result (49 / (800 * pi)))"
    using find_attractor_loop_m99 by blast
  let ?E = "8 * pi / 3 * (0.5 * trial_result 0 * trial_result 0
                                  + (3 / (8 * pi) - 0 * (3 / (8 * pi))))"
  let ?E' = "8 * pi / 3 * (0.5 * trial_result (49 / (800 * pi)) * trial_result (49 / (800 * pi))
                                  + (3 / (8 * pi) - (- 99) * (3 / (8 * pi))))"
  have t0: "0 \<le> trial_result 0"
  proof -
    have "0 < 1 / (16 * pi)" by simp
    then show ?thesis using trial_result_0(1) by linarith
  qed
  have "trial_result 0 * trial_result 0 \<le> 3 / (16 * pi) * (3 / (16 * pi))"
    using trial_result_0(2) t0 by (intro mult_mono) simp_all
  then have "4 * pi / 3 * (trial_result 0 * trial_result 0)
             \<le> 4 * pi / 3 * (3 / (16 * pi) * (3 / (16 * pi)))"
    by (intro mult_left_mono) simp_all
  also have "\<dots> = 3 / (64 * pi)" by (simp add: field_simps)
  also have "\<dots> \<le> 3 / 128" using pi_ge_two by (simp add: field_simps)
  finally have k: "4 * pi / 3 * (trial_result 0 * trial_result 0) \<le> 3 / 128" .
  have E: "?E = 4 * pi / 3 * (trial_result 0 * trial_result 0) + 1"
    by (simp add: field_simps)
  have E0: "0 \<le> ?E" unfolding E by simp
  have "1 + 3 / 128 < (4 / 3 :: real)\<^sup>2" by (simp add: power2_eq_square)
  then have "4 * pi / 3 * (trial_result 0 * trial_result 0) + 1 < (4 / 3)\<^sup>2"
    using k by linarith
  then have H: "sqrt ?E < 4 / 3" unfolding E by (intro real_less_lsqrt) simp_all
  have E': "?E' = 4 * pi / 3 * (trial_result (49 / (800 * pi)) * trial_result (49 / (800 * pi))) + 100"
    by (simp add: field_simps)
  have E'0: "0 \<le> ?E'" unfolding E' by simp
  have "0 \<le> 4 * pi / 3 * (trial_result (49 / (800 * pi)) * trial_result (49 / (800 * pi)))"
    by simp
  moreover have "(10::real)\<^sup>2 = 100" by simp
  ultimately have "10\<^sup>2 \<le> 4 * pi / 3 * (trial_result (49 / (800 * pi)) * trial_result (49 / (800 * pi))) + 100"
    by linarith
  then have H': "10 \<le> sqrt ?E'" unfolding E' by (rule real_le_rsqrt)
  have run0: "primordial_inflation_find_attractor ppm_attractor ppr_attractor euler_integrator
        (Num 0) (Num (1 / (16 * pi))) (Num (1 / 2)) (\<lambda>_. Num 0) (\<lambda>_. Num 0)
      = Some (Inr (Num (sqrt ?E), Num (trial_result 0), at_y s, at_dy s))"
    unfolding primordial_inflation_find_attractor_def ppm_attractor_potential prod.case Let_def
      trial_dphidt [OF l0]
    by (simp only: double_arith divide_double_Num [OF nz] loop0 option.case sum.case s
          sqrt_double_Num [OF E0])
  have run99: "primordial_inflation_find_attractor ppm_attractor ppr_attractor euler_integrator
        (Num (- 99)) (Num (1 / (16 * pi))) (Num (1 / 2)) (\<lambda>_. Num 0) (\<lambda>_. Num 0)
      = Some (Inr (Num (sqrt ?E'), Num (trial_result (49 / (800 * pi))), at_y s', at_dy s'))"
    unfolding primordial_inflation_find_attractor_def ppm_attractor_potential prod.case Let_def
      trial_dphidt [OF l99]
    by (simp only: double_arith divide_double_Num [OF nz] loop99 option.case sum.case s'
          sqrt_double_Num [OF E'0])
  have "\<exists>H d y1 dy1 H' d' y2 dy2.
     primordial_inflation_find_attractor ppm_attractor ppr_attractor euler_integrator
        (Num 0) (Num (1 / (16 * pi))) (Num (1 / 2)) (\<lambda>_. Num 0) (\<lambda>_. Num 0)
          = Some (Inr (H, d, y1, dy1))
   \<and> primordial_inflation_find_attractor ppm_attractor ppr_attractor euler_integrator
        (Num (- 99)) (Num (1 / (16 * pi))) (Num (1 / 2)) (\<lambda>_. Num 0) (\<lambda>_. Num 0)
          = Some (Inr (H', d', y2, dy2))
   \<and> H < Num (4 / 3) \<and> Num 10 \<le> H'
   \<and> d = Num (trial_result 0) \<and> d' = Num (trial_result (49 / (800 * pi)))"
    unfolding run0 run99
  proof (intro exI conjI)
    show "Some (Inr (Num (sqrt ?E), Num (trial_result 0), at_y s, at_dy s))
          = Some (Inr (Num (sqrt ?E), Num (trial_result 0), at_y s, at_dy s))" by (rule refl)
    show "Some (Inr (Num (sqrt ?E'), Num (trial_result (49 / (800 * pi))), at_y s', at_dy s'))
          = Some (Inr (Num (sqrt ?E'), Num (trial_result (49 / (800 * pi))), at_y s', at_dy s'))"
      by (rule refl)
    show "Num (sqrt ?E) < Num (4 / 3)" using H by (simp only: less_double.simps)
    show "Num 10 \<le> Num (sqrt ?E')" using H' by (simp only: less_eq_double.simps)
    show "Num (trial_result 0) = Num (trial_result 0)" by (rule refl)
    show "Num (trial_result (49 / (800 * pi))) = Num (trial_result (49 / (800 * pi)))"
      by (rule refl)
  qed
  then show ?thesis by simp
qed

subsection \<open>Mode integrator\<close>

lemma ppm_one_mode_potential:
  "primordial_inflation_potential ppm_one_mode (Num phi)
     = (Num (3 / (8 * pi) - 1 / 32 - phi), Num (- 1), Num 0)"
  by (simp add: primordial_inflation_potential_def ppm_one_mode_def ppm_unit_hubble_def
      ppm_fixture_def)


text \<open>The sum under the square root at a state with field velocity a quarter of the scale factor.\<close>

lemma mode_radicand:
  "8 * pi / 3 * (0.5 * (A / 4) * (A / 4) + A * A * (3 / (8 * pi) - 1 / 32 - p))
     = A\<^sup>2 * (1 - 8 * pi * p / 3)"
  by (simp add: field_simps power2_eq_square)

lemma mode_radicand_square:
  assumes "p = 3 * (1 - h\<^sup>2) / (8 * pi)"
  shows "8 * pi / 3 * (0.5 * (A / 4) * (A / 4) + A * A * (3 / (8 * pi) - 1 / 32 - p))
         = (A * h)\<^sup>2"
proof -
  have "1 - 8 * pi * p / 3 = h\<^sup>2" unfolding assms by (simp add: field_simps)
  then have "A\<^sup>2 * (1 - 8 * pi * p / 3) = (A * h)\<^sup>2" by (simp add: power_mult_distrib)
  then show ?thesis unfolding mode_radicand .
qed

lemma mode_aH:
  assumes "0 \<le> A" "0 \<le> h" "p = 3 * (1 - h\<^sup>2) / (8 * pi)"
  shows "sqrt (8 * pi / 3 * (0.5 * (A / 4) * (A / 4) + A * A * (3 / (8 * pi) - 1 / 32 - p)))
         = A * h"
  unfolding mode_radicand_square [OF assms(3)] using assms(1,2) by simp


lemma mode_state_slots:
  "mode_state A p index_in_a = Num A" "mode_state A p index_in_phi = Num p"
  "mode_state A p index_in_dphi = Num (A / 4)" "mode_state A p index_in_ksi_re = Num 1"
  "mode_state A p index_in_ksi_im = Num 0" "mode_state A p index_in_ah_re = Num 1"
  "mode_state A p index_in_ah_im = Num 0"
  by (simp_all add: mode_state_def index_in_defs)

text \<open>The background slot \<open>a\<close> of the derivative, whatever the number of equations.\<close>

lemma derivs_mode_a:
  fixes y :: vec
  assumes y: "y index_in_a = Num A" "y index_in_phi = Num p" "y index_in_dphi = Num (A / 4)"
    and A: "0 \<le> A" and h: "0 \<le> h" and p: "p = 3 * (1 - h\<^sup>2) / (8 * pi)"
  shows "primordial_inflation_derivs ppm_one_mode N k tau y dy index_in_a = Num (A * (A * h))"
proof -
  have r: "0 \<le> 8 * pi / 3 * (0.5 * (A / 4) * (A / 4) + A * A * (3 / (8 * pi) - 1 / 32 - p))"
    unfolding mode_radicand_square [OF p] by simp
  have "primordial_inflation_derivs ppm_one_mode N k tau y dy index_in_a
        = y index_in_a * sqrt_double ((8 * Num pi / 3)
             * (0.5 * y index_in_dphi * y index_in_dphi
                + y index_in_a * y index_in_a * Num (3 / (8 * pi) - 1 / 32 - p)))"
    unfolding primordial_inflation_derivs_def y(2) ppm_one_mode_potential prod.case Let_def
    by (simp add: index_in_defs del: zero_double one_double numeral_double)
  also have "\<dots> = Num (A * (A * h))"
    unfolding y
    by (simp only: double_arith sqrt_double_Num [OF r] mode_aH [OF A h p])
  finally show ?thesis .
qed


lemma in_size_not_bg: "in_size \<noteq> in_bg_size"
  by (simp add: index_in_defs)

lemma derivs_slot_dksi_re:
  "primordial_inflation_derivs ppm N k tau y dy index_in_dksi_re
   = (case primordial_inflation_potential ppm (y index_in_phi) of (V, dV, ddV) \<Rightarrow>
      let a2V = y index_in_a * y index_in_a * V;
          a2dV = y index_in_a * y index_in_a * dV;
          aH = sqrt_double ((8 * Num pi / 3)
                 * (0.5 * y index_in_dphi * y index_in_dphi + a2V))
      in if N = in_bg_size then dy index_in_dksi_re
         else
           let a2ddV = y index_in_a * y index_in_a * ddV;
               zpp_over_z = 2 * aH * aH - a2ddV
                 - 4 * Num pi * (7 * y index_in_dphi * y index_in_dphi
                                 + 4 * y index_in_dphi / aH * a2dV)
                 + 32 * Num pi * Num pi * (y index_in_dphi)^4 / aH^2
           in - (k * k - zpp_over_z) * y index_in_ksi_re)"
  unfolding primordial_inflation_derivs_def Let_def
  by (simp add: index_in_defs split: prod.splits del: zero_double one_double numeral_double)

lemma derivs_mode_dksi_re:
  fixes y :: vec
  assumes y: "y index_in_a = Num A" "y index_in_phi = Num p" "y index_in_dphi = Num (A / 4)"
      "y index_in_ksi_re = Num x"
    and A: "0 < A" and h: "0 < h" and p: "p = 3 * (1 - h\<^sup>2) / (8 * pi)"
  shows "\<exists>q. primordial_inflation_derivs ppm_one_mode in_size (Num kr) tau y dy index_in_dksi_re
           = Num q"
proof -
  have A0: "0 \<le> A" and h0: "0 \<le> h" using A h by simp_all
  have r: "0 \<le> 8 * pi / 3 * (0.5 * (A / 4) * (A / 4) + A * A * (3 / (8 * pi) - 1 / 32 - p))"
    unfolding mode_radicand_square [OF p] by simp
  have nz: "A * h \<noteq> 0" "(A * h)\<^sup>2 \<noteq> 0" using A h by simp_all
  show ?thesis
    unfolding derivs_slot_dksi_re y ppm_one_mode_potential prod.case Let_def
      if_not_P [OF in_size_not_bg]
    by (simp only: double_arith sqrt_double_Num [OF r] mode_aH [OF A0 h0 p]
          divide_double_Num [OF nz(1)] divide_double_Num [OF nz(2)]) blast
qed


lemma one_k_step_finite:
  fixes y1 :: vec
  assumes gi: "generic_integrator gi (primordial_inflation_derivs ppm_one_mode in_size (Num kr))
                 (pt_tau_end s) (pt_tau_end s + pt_dtau s) (pt_y s)
                 (primordial_inflation_tol_integration ppr) (smallest_allowed_variation ppr)
                 (pt_gi s) = Inr (y1, w1)"
    and y1: "y1 index_in_a = Num A" "y1 index_in_phi = Num p" "y1 index_in_dphi = Num (A / 4)"
      "y1 index_in_ksi_re = Num x"
    and x2: "y1 index_in_ksi_im = Num x2"
    and A: "0 < A" and h: "0 < h" and p: "p = 3 * (1 - h\<^sup>2) / (8 * pi)"
    and x: "x \<noteq> 0" and kr: "0 < kr"
    and pt: "0 < primordial_inflation_pt_stepsize ppr"
    and c0: "pt_curvature_new s = Num c0"
  shows "\<exists>dy1 dt d. one_k_step ppm_one_mode ppr gi (Num kr) s
      = Inr (\<lparr>pt_y = y1, pt_dy = dy1, pt_tau_end = pt_tau_end s + pt_dtau s, pt_dtau = Num dt,
              pt_curvature_new = Num (kr * kr * kr / 2 / pi / pi * (x * x + x2 * x2)
                                       / (A * (A / 4) / (A * (A * h) / A))
                                       / (A * (A / 4) / (A * (A * h) / A))),
              pt_gi = w1\<rparr>,
             Num (A * (A * h) / A), Num d)
      \<and> dt \<noteq> 0
      \<and> (c0 = kr * kr * kr / 2 / pi / pi * (x * x + x2 * x2)
                   / (A * (A / 4) / (A * (A * h) / A))
                   / (A * (A / 4) / (A * (A * h) / A)) \<longrightarrow> d = 0)"
proof -
  let ?dy = "primordial_inflation_derivs ppm_one_mode in_size (Num kr) (pt_tau_end s + pt_dtau s)
               y1 (pt_dy s)"
  have A0: "0 \<le> A" and h0: "0 \<le> h" using A h by simp_all
  obtain q where q: "?dy index_in_dksi_re = Num q"
    using derivs_mode_dksi_re [OF y1 A h p] by blast
  have a: "?dy index_in_a = Num (A * (A * h))"
    by (rule derivs_mode_a [OF y1(1-3) A0 h0 p])
  let ?aH = "A * (A * h) / A"
  let ?z = "A * (A / 4) / ?aH"
  let ?C = "kr * kr * kr / 2 / pi / pi * (x * x + x2 * x2) / ?z / ?z"
  let ?m = "max (sqrt \<bar>q / x\<bar>) kr"
  let ?dt = "primordial_inflation_pt_stepsize ppr * 2 * pi / ?m"
  have f1: "0 \<le> \<bar>q / x\<bar>" by simp
  have "kr \<le> ?m" by (rule max.cobounded2)
  then have m: "0 < ?m" using kr by linarith
  have f2: "?m \<noteq> 0" using m by (metis less_irrefl)
  have f3: "A \<noteq> 0" using A by simp
  have "0 < A * (A * h)" using A h by simp
  then have aH: "0 < ?aH" using A by (rule divide_pos_pos)
  have f4: "?aH \<noteq> 0" using aH by (metis less_irrefl)
  have "0 < A * (A / 4)" using A by simp
  then have z: "0 < ?z" using aH by (rule divide_pos_pos)
  have f5: "?z \<noteq> 0" using z by (metis less_irrefl)
  have "0 < primordial_inflation_pt_stepsize ppr * 2 * pi" using pt by simp
  then have dt: "0 < ?dt" using m by (rule divide_pos_pos)
  have f6: "?dt \<noteq> 0" using dt by (metis less_irrefl)
  have f7: "A * (A * h) \<noteq> 0" using A h by simp
  have "0 < x\<^sup>2" using x by simp
  then have "0 < x * x" by (simp only: power2_eq_square)
  moreover have "0 \<le> x2 * x2" by simp
  ultimately have "0 < x * x + x2 * x2" by linarith
  then have "0 < kr * kr * kr / 2 / pi / pi * (x * x + x2 * x2)" using kr by simp
  then have "0 < kr * kr * kr / 2 / pi / pi * (x * x + x2 * x2) / ?z"
    using z by (rule divide_pos_pos)
  then have C: "0 < ?C" using z by (rule divide_pos_pos)
  have f8: "?C \<noteq> 0" using C by (metis less_irrefl)
  show ?thesis
    unfolding one_k_step_def Let_def gi sum.case prod.case pt_stepsize_dtau_def q a y1 x2 c0
    apply (simp only: double_arith divide_double_Num [OF x] sqrt_double_Num [OF f1]
        divide_double_Num [OF f2] divide_double_Num [OF f3] divide_double_Num [OF f4]
        divide_double_Num [OF f5] divide_double_Num [OF f6] divide_double_Num [OF f7]
        divide_double_Num [OF f8])
    apply (intro exI conjI)
      apply (rule refl)
     apply (rule f6)
    apply (intro impI)
    apply (simp only: diff_self div_0 mult_zero_left)
    done
qed


lemma one_k_loop_settles:
  assumes s1: "one_k_step ppm ppr gi (Num kr) s0 = Inr (s1, Num aH, d1)"
    and s2: "one_k_step ppm ppr gi (Num kr) s1 = Inr (s2, Num aH, Num 0)"
    and eq: "pt_y s2 = pt_y s1" "pt_curvature_new s2 = pt_curvature_new s1"
    and aH: "aH \<noteq> 0"
    and ok: "kr / aH < primordial_inflation_ratio_max ppr"
      "0 \<le> primordial_inflation_tol_curvature ppr"
  shows "\<exists>s' d'. one_k_loop ppm ppr gi (Num kr) s0 = Some (Inr (s', Num aH, d'))
           \<and> pt_y s' = pt_y s1 \<and> pt_curvature_new s' = pt_curvature_new s1
           \<and> (s' = s1 \<or> s' = s2)"
proof -
  have t2: "\<not> (Num kr / Num aH \<ge> Num (primordial_inflation_ratio_max ppr)
              \<or> \<bar>Num 0\<bar> > Num (primordial_inflation_tol_curvature ppr))"
    using aH ok by simp
  have l1: "one_k_loop ppm ppr gi (Num kr) s1 = Some (Inr (s2, Num aH, Num 0))"
    by (subst one_k_loop.simps) (simp only: s2 sum.case prod.case if_not_P [OF t2])
  show ?thesis
  proof (cases "Num kr / Num aH \<ge> Num (primordial_inflation_ratio_max ppr)
                \<or> \<bar>d1\<bar> > Num (primordial_inflation_tol_curvature ppr)")
    case True
    have "one_k_loop ppm ppr gi (Num kr) s0 = one_k_loop ppm ppr gi (Num kr) s1"
      by (subst one_k_loop.simps) (simp only: s1 sum.case prod.case if_P [OF True])
    then show ?thesis unfolding l1 using eq by blast
  next
    case False
    have "one_k_loop ppm ppr gi (Num kr) s0 = Some (Inr (s1, Num aH, d1))"
      by (subst one_k_loop.simps) (simp only: s1 sum.case prod.case if_not_P [OF False])
    then show ?thesis by blast
  qed
qed








text \<open>
  C4. For a wavenumber \<open>k > 0\<close>, \<open>primordial_inflation_one_k\<close> is its
  \<open>do ... while\<close> loop, followed by its output statements, started on the array in
  which the curvature mode function \<open>ksi\<close> and the tensor mode function \<open>ah\<close> are
  both \<open>1 / sqrt (2 k)\<close> (real part; the imaginary part is 0) and the derivative of each
  is \<open>- k\<close> times that value (imaginary part; the real part is 0), the other slots being
  those of the caller; the first thing the loop does is to hand that array to the
  integrator, for the interval from 0 to the first step size, and when that call fails the
  routine fails with its message. The loop starts at time 0 with the previous curvature set
  to \<open>1.e10\<close>. When the integrator cannot be initialised the routine fails with its
  message.
\<close>

theorem one_k_integrates_from_bunch_davies:
  assumes "0 < kr"
  shows "let y0 = y(index_in_ksi_re := Num (1 / sqrt (2 * kr)), index_in_ksi_im := Num 0,
                    index_in_dksi_re := Num 0,
                    index_in_dksi_im := Num (- kr * (1 / sqrt (2 * kr))),
                    index_in_ah_re := Num (1 / sqrt (2 * kr)), index_in_ah_im := Num 0,
                    index_in_dah_re := Num 0,
                    index_in_dah_im := Num (- kr * (1 / sqrt (2 * kr))));
             dy0 = primordial_inflation_derivs ppm in_size (Num kr) (Num 0) y0 dy;
             dtau0 = pt_stepsize_dtau ppr (Num kr) y0 dy0
         in primordial_inflation_one_k ppm ppr gi (Num kr) y dy =
              (case initialize_generic_integrator gi in_size of
                 Inl m \<Rightarrow> Some (Inl (External m))
               | Inr w \<Rightarrow>
                  (case one_k_loop ppm ppr gi (Num kr)
                          \<lparr>pt_y = y0, pt_dy = dy0, pt_tau_end = Num 0, pt_dtau = dtau0,
                           pt_curvature_new = Num 10000000000, pt_gi = w\<rparr> of
                     None \<Rightarrow> None
                   | Some (Inl e) \<Rightarrow> Some (Inl e)
                   | Some (Inr (s, aH, dlnPdN)) \<Rightarrow> one_k_outputs gi (Num kr) s))
          \<and> (\<forall>w m. initialize_generic_integrator gi in_size = Inr w
                 \<longrightarrow> generic_integrator gi (primordial_inflation_derivs ppm in_size (Num kr))
                       (Num 0) (Num 0 + dtau0) y0
                       (primordial_inflation_tol_integration ppr)
                       (smallest_allowed_variation ppr) w = Inl m
                 \<longrightarrow> primordial_inflation_one_k ppm ppr gi (Num kr) y dy
                       = Some (Inl (External m)))"
proof -
  have r: "0 \<le> 2 * kr" using assms by simp
  have s: "sqrt (2 * kr) \<noteq> 0" using assms by simp
  have v: "1 / sqrt_double (2 * Num kr) = Num (1 / sqrt (2 * kr))"
    by (simp only: double_arith sqrt_double_Num [OF r] divide_double_Num [OF s])
  let ?y0 = "y(index_in_ksi_re := Num (1 / sqrt (2 * kr)), index_in_ksi_im := Num 0,
              index_in_dksi_re := Num 0,
              index_in_dksi_im := Num (- kr * (1 / sqrt (2 * kr))),
              index_in_ah_re := Num (1 / sqrt (2 * kr)), index_in_ah_im := Num 0,
              index_in_dah_re := Num 0,
              index_in_dah_im := Num (- kr * (1 / sqrt (2 * kr))))"
  let ?dy0 = "primordial_inflation_derivs ppm in_size (Num kr) (Num 0) ?y0 dy"
  let ?dtau0 = "pt_stepsize_dtau ppr (Num kr) ?y0 ?dy0"
  let ?s0 = "\<lambda>w. \<lparr>pt_y = ?y0, pt_dy = ?dy0, pt_tau_end = Num 0, pt_dtau = ?dtau0,
                  pt_curvature_new = Num 10000000000, pt_gi = w\<rparr>"
  have y0: "y(index_in_ksi_re := Num (1 / sqrt (2 * kr)), index_in_ksi_im := 0,
              index_in_dksi_re := 0,
              index_in_dksi_im :=
                - Num kr * (y(index_in_ksi_re := Num (1 / sqrt (2 * kr)), index_in_ksi_im := 0,
                              index_in_dksi_re := 0)) index_in_ksi_re,
              index_in_ah_re := Num (1 / sqrt (2 * kr)), index_in_ah_im := 0,
              index_in_dah_re := 0,
              index_in_dah_im :=
                - Num kr * (y(index_in_ksi_re := Num (1 / sqrt (2 * kr)), index_in_ksi_im := 0,
                              index_in_dksi_re := 0,
                              index_in_dksi_im :=
                                - Num kr * (y(index_in_ksi_re := Num (1 / sqrt (2 * kr)),
                                              index_in_ksi_im := 0, index_in_dksi_re := 0))
                                             index_in_ksi_re,
                              index_in_ah_re := Num (1 / sqrt (2 * kr)), index_in_ah_im := 0,
                              index_in_dah_re := 0)) index_in_ah_re)
          = ?y0"
    by (simp add: index_in_defs)
  have run: "primordial_inflation_one_k ppm ppr gi (Num kr) y dy =
              (case initialize_generic_integrator gi in_size of
                 Inl m \<Rightarrow> Some (Inl (External m))
               | Inr w \<Rightarrow>
                  (case one_k_loop ppm ppr gi (Num kr) (?s0 w) of
                     None \<Rightarrow> None
                   | Some (Inl e) \<Rightarrow> Some (Inl e)
                   | Some (Inr (s, aH, dlnPdN)) \<Rightarrow> one_k_outputs gi (Num kr) s))"
    unfolding primordial_inflation_one_k_def Let_def v y0
    by (simp split: sum.splits)
  have first: "primordial_inflation_one_k ppm ppr gi (Num kr) y dy = Some (Inl (External m))"
    if i: "initialize_generic_integrator gi in_size = Inr w"
      and g: "generic_integrator gi (primordial_inflation_derivs ppm in_size (Num kr))
                (Num 0) (Num 0 + ?dtau0) ?y0
                (primordial_inflation_tol_integration ppr)
                (smallest_allowed_variation ppr) w = Inl m"
    for w m
  proof -
    have step: "one_k_step ppm ppr gi (Num kr) (?s0 w) = Inl (External m)"
      unfolding one_k_step_def Let_def pt_loop.simps g sum.case by (rule refl)
    have loop: "one_k_loop ppm ppr gi (Num kr) (?s0 w) = Some (Inl (External m))"
      by (subst one_k_loop.simps) (simp only: step sum.case)
    show ?thesis unfolding run i sum.case loop option.case by (rule refl)
  qed
  show ?thesis
    unfolding Let_def using run first by blast
qed

lemma probing_integrator_simps:
  "initialize_generic_integrator (probing_integrator bg) N = Inr N"
  "cleanup_generic_integrator (probing_integrator bg) w = Inr ()"
  "generic_integrator (probing_integrator bg) f tau_start tau_end y tol minvar N
     = Inr (y(index_in_a := bg index_in_a, index_in_phi := bg index_in_phi,
              index_in_dphi := bg index_in_dphi, index_in_ah_re := y index_in_dah_im), N)"
  by (simp_all add: probing_integrator_def)

lemma refusing_integrator_simps:
  "initialize_generic_integrator refusing_integrator N = Inr N"
  "generic_integrator refusing_integrator f tau_start tau_end y tol minvar w
     = Inl ''step size too small''"
  by (simp_all add: refusing_integrator_def)

theorem one_k_integrates_from_bunch_davies_witness:
  "(0::real) < 2
   \<and> (\<exists>y' dy'. primordial_inflation_one_k ppm_one_mode ppr_fixture
                  (probing_integrator (mode_state 200 0)) (Num 2) (\<lambda>_. 0) (\<lambda>_. 0)
         = Some (Inr (Num (1 / (2500 * pi\<^sup>2)), Num (4 / (625 * pi)), y', dy'))
       \<and> y' index_in_ksi_re = Num (1 / 2) \<and> y' index_in_dksi_im = Num (- 1)
       \<and> y' index_in_ah_re = Num (- 1) \<and> y' index_in_dah_im = Num (- 1))
   \<and> primordial_inflation_one_k ppm_one_mode ppr_fixture refusing_integrator (Num 2)
         (\<lambda>_. 0) (\<lambda>_. 0)
       = Some (Inl (External ''step size too small''))"
proof -
  let ?gi = "probing_integrator (mode_state 200 0)"
  have pos: "(0::real) < 2" by simp
  let ?y0 = "(\<lambda>_. 0 :: double)(index_in_ksi_re := Num (1 / sqrt (2 * 2)), index_in_ksi_im := Num 0,
                     index_in_dksi_re := Num 0,
                     index_in_dksi_im := Num (- 2 * (1 / sqrt (2 * 2))),
                     index_in_ah_re := Num (1 / sqrt (2 * 2)), index_in_ah_im := Num 0,
                     index_in_dah_re := Num 0,
                     index_in_dah_im := Num (- 2 * (1 / sqrt (2 * 2))))"
  let ?dy0 = "primordial_inflation_derivs ppm_one_mode in_size (Num 2) (Num 0) ?y0 (\<lambda>_. 0)"
  let ?s0 = "\<lparr>pt_y = ?y0, pt_dy = ?dy0, pt_tau_end = Num 0,
              pt_dtau = pt_stepsize_dtau ppr_fixture (Num 2) ?y0 ?dy0,
              pt_curvature_new = Num 10000000000, pt_gi = in_size\<rparr>"
  let ?y1 = "?y0(index_in_a := Num 200, index_in_phi := Num 0, index_in_dphi := Num (200 / 4),
                 index_in_ah_re := Num (- 2 * (1 / sqrt (2 * 2))))"
  let ?x = "1 / sqrt (2 * 2) :: real"
  let ?C = "2 * 2 * 2 / 2 / pi / pi * (?x * ?x + 0 * 0)
              / (200 * (200 / 4) / (200 * (200 * 1) / 200))
              / (200 * (200 / 4) / (200 * (200 * 1) / 200))"
  have unf: "primordial_inflation_one_k ppm_one_mode ppr_fixture ?gi (Num 2) (\<lambda>_. 0) (\<lambda>_. 0)
     = (case one_k_loop ppm_one_mode ppr_fixture ?gi (Num 2) ?s0 of
               None \<Rightarrow> None
             | Some (Inl e) \<Rightarrow> Some (Inl e)
             | Some (Inr (s, aH, dlnPdN)) \<Rightarrow> one_k_outputs ?gi (Num 2) s)"
    using one_k_integrates_from_bunch_davies
            [OF pos, of "\<lambda>_. 0" ppm_one_mode "\<lambda>_. 0" ppr_fixture ?gi]
    unfolding probing_integrator_simps sum.case Let_def by blast
  have y1: "?y1 index_in_a = Num 200" "?y1 index_in_phi = Num 0"
      "?y1 index_in_dphi = Num (200 / 4)" "?y1 index_in_ksi_re = Num ?x"
    and x2: "?y1 index_in_ksi_im = Num 0"
    by (simp_all add: index_in_defs)
  have gi0: "generic_integrator ?gi f t0 t1 (pt_y ?s0) tol mv (pt_gi ?s0) = Inr (?y1, in_size)"
    for f t0 t1 tol mv
    unfolding probing_integrator_simps mode_state_slots pt_loop.simps
    by (simp add: index_in_defs)
  have A: "(0::real) < 200" and h: "(0::real) < 1" by simp_all
  have p: "(0::real) = 3 * (1 - 1\<^sup>2) / (8 * pi)" by simp
  have x: "?x \<noteq> 0" by simp
  have pt: "0 < primordial_inflation_pt_stepsize ppr_fixture" by (simp add: ppr_fixture_def)
  have c0: "pt_curvature_new ?s0 = Num 10000000000" by simp
  from one_k_step_finite [OF gi0 y1 x2 A h p x pos pt c0]
  obtain dy1 dt1 d1 where
    step1: "one_k_step ppm_one_mode ppr_fixture ?gi (Num 2) ?s0
      = Inr (\<lparr>pt_y = ?y1, pt_dy = dy1, pt_tau_end = pt_tau_end ?s0 + pt_dtau ?s0,
              pt_dtau = Num dt1, pt_curvature_new = Num ?C, pt_gi = in_size\<rparr>,
             Num (200 * (200 * 1) / 200), Num d1)"
      (is "_ = Inr (?s1, _, _)")
    by blast
  have gi1: "generic_integrator ?gi f t0 t1 (pt_y ?s1) tol mv (pt_gi ?s1) = Inr (?y1, in_size)"
    for f t0 t1 tol mv
    unfolding probing_integrator_simps mode_state_slots pt_loop.simps
    by (simp add: index_in_defs)
  have c1: "pt_curvature_new ?s1 = Num ?C" by simp
  from one_k_step_finite [OF gi1 y1 x2 A h p x pos pt c1]
  obtain dy2 dt2 where
    step2: "one_k_step ppm_one_mode ppr_fixture ?gi (Num 2) ?s1
      = Inr (\<lparr>pt_y = ?y1, pt_dy = dy2, pt_tau_end = pt_tau_end ?s1 + pt_dtau ?s1,
              pt_dtau = Num dt2, pt_curvature_new = Num ?C, pt_gi = in_size\<rparr>,
             Num (200 * (200 * 1) / 200), Num 0)"
      (is "_ = Inr (?s2, _, _)")
    by blast
  have aH: "(200 * (200 * 1) / 200 :: real) \<noteq> 0" by simp
  have ok: "2 / (200 * (200 * 1) / 200) < primordial_inflation_ratio_max ppr_fixture"
    "0 \<le> primordial_inflation_tol_curvature ppr_fixture"
    by (simp_all add: ppr_fixture_def)
  have eq: "pt_y ?s2 = pt_y ?s1" "pt_curvature_new ?s2 = pt_curvature_new ?s1" by simp_all
  from one_k_loop_settles [OF step1 step2 eq aH ok]
  obtain s' d' where
    run: "one_k_loop ppm_one_mode ppr_fixture ?gi (Num 2) ?s0
            = Some (Inr (s', Num (200 * (200 * 1) / 200), d'))"
    and s': "s' = ?s1 \<or> s' = ?s2"
    by blast
  from s' have s'': "pt_y s' = ?y1" "pt_curvature_new s' = Num ?C" by auto
  have out: "one_k_outputs ?gi (Num 2) s'
      = Some (Inr (Num (1 / (2500 * pi\<^sup>2)), Num (4 / (625 * pi)), ?y1, pt_dy s'))"
    unfolding one_k_outputs_def probing_integrator_simps sum.case Let_def s''
    by (simp add: index_in_defs power2_eq_square)
  have slots: "?y1 index_in_ksi_re = Num (1 / 2)" "?y1 index_in_dksi_im = Num (- 1)"
    "?y1 index_in_ah_re = Num (- 1)" "?y1 index_in_dah_im = Num (- 1)"
    by (simp_all add: index_in_defs)
  have refused: "primordial_inflation_one_k ppm_one_mode ppr_fixture refusing_integrator (Num 2)
         (\<lambda>_. 0) (\<lambda>_. 0) = Some (Inl (External ''step size too small''))"
    by (rule one_k_integrates_from_bunch_davies
               [OF pos, of "\<lambda>_. 0" ppm_one_mode "\<lambda>_. 0" ppr_fixture refusing_integrator,
                unfolded Let_def, THEN conjunct2, rule_format,
                OF refusing_integrator_simps])
  show ?thesis
    unfolding unf run option.case sum.case prod.case out
    using pos slots refused by blast
qed


subsection \<open>Spectrum assembler\<close>











end
